theory Spec2Isabelle
  imports Complex_Main "HOL-Library.Log_Nat"
begin

section \<open>Qt string helpers used by the generator\<close>

text \<open>
  The generator is written against Qt's \<open>QString\<close>. The few library operations the
  modelled functions call are written out here on \<open>string\<close>.
\<close>

definition isSpace :: "char \<Rightarrow> bool" where
  "isSpace c = (c = CHR '' '' \<or> c = CHR 0x09 \<or> c = CHR 0x0A \<or> c = CHR 0x0B \<or> c = CHR 0x0C \<or> c = CHR 0x0D)"

text \<open>\<open>QString::trimmed\<close>: whitespace removed from both ends.\<close>

definition trimmed :: "string \<Rightarrow> string" where
  "trimmed s = rev (dropWhile isSpace (rev (dropWhile isSpace s)))"

text \<open>\<open>QString::startsWith\<close> (case sensitive).\<close>

definition startsWith :: "string \<Rightarrow> string \<Rightarrow> bool" where
  "startsWith s p = (take (length p) s = p)"

definition digitChar :: "nat \<Rightarrow> char" where
  "digitChar d = ''0123456789'' ! (d mod 10)"

fun decimal :: "nat \<Rightarrow> string" where
  "decimal n = (if n < 10 then [digitChar n] else decimal (n div 10) @ [digitChar (n mod 10)])"

declare decimal.simps [simp del]

text \<open>\<open>QString::setNum(int)\<close>: the decimal text of a signed integer.\<close>

definition setNum :: "int \<Rightarrow> string" where
  "setNum i = (if i < 0 then CHR ''-'' # decimal (nat (- i)) else decimal (nat i))"

text \<open>
  The C++ type \<open>int\<close> is 32 bits wide. \<open>wrap32\<close> is the two's complement value of an
  integer in that width: it is what the conversion of an \<open>unsigned int\<close> to \<open>int\<close>
  yields, and what an increment past \<open>INT_MAX\<close> yields on the usual targets.
\<close>

definition INT_MAX :: int where
  "INT_MAX = 2147483647"

definition wrap32 :: "int \<Rightarrow> int" where
  "wrap32 i = (i + 2147483648) mod 4294967296 - 2147483648"

text \<open>
  A model of \<open>QString::toUInt(&ok, base)\<close> as Qt 5 implements it, used wherever a
  concrete parser is needed: surrounding whitespace is ignored, base 16 accepts a
  \<open>0x\<close> prefix, every remaining character must be a digit of the base, and the
  number must fit 32 bits. \<open>None\<close> stands for \<open>ok = false\<close>. The functions below take
  the parser as an argument, so what is proved of them holds for every parser.
\<close>

definition digitValue :: "char \<Rightarrow> int" where
  "digitValue c =
     (let k = of_char c :: int in
      if 48 \<le> k \<and> k \<le> 57 then k - 48
      else if 97 \<le> k \<and> k \<le> 122 then k - 87
      else if 65 \<le> k \<and> k \<le> 90 then k - 55
      else 36)"

definition parseDigits :: "int \<Rightarrow> string \<Rightarrow> int option" where
  "parseDigits base ds =
     (if ds \<noteq> [] \<and> list_all (\<lambda>c. digitValue c < base) ds
      then Some (foldl (\<lambda>acc c. acc * base + digitValue c) 0 ds) else None)"

definition qt5_toUInt :: "string \<Rightarrow> int \<Rightarrow> int option" where
  "qt5_toUInt s base =
     (let t = trimmed s;
          ds = (if base = 16 \<and> (startsWith t ''0x'' \<or> startsWith t ''0X'') then drop 2 t else t)
      in case parseDigits base ds of
           None \<Rightarrow> None
         | Some n \<Rightarrow> if n < 4294967296 then Some n else None)"

section \<open>Enumerations: \<open>EnumCreator::computeNumberList\<close>\<close>

text \<open>
  The members of \<open>EnumCreator\<close> that \<open>computeNumberList\<close> reads and writes.
\<close>

record EnumCreator =
  valueList :: "string list"
  numberList :: "string list"
  minbitwidth :: int

text \<open>The local variables of the loop, together with the list being built.\<close>

record numberLoop =
  val :: int
  baseString :: string
  maxValue :: int
  numbers :: "string list"

definition numberLoopInit :: numberLoop where
  "numberLoopInit = \<lparr>val = - 1, baseString = [], maxValue = 1, numbers = []\<rparr>"

text \<open>The base handed to \<open>toUInt\<close>: 16 after \<open>0x\<close>, 2 after \<open>0b\<close>, else 10.\<close>

definition literalBase :: "string \<Rightarrow> int" where
  "literalBase stringValue =
     (if startsWith stringValue ''0x'' then 16
      else if startsWith stringValue ''0b'' then 2 else 10)"

text \<open>One iteration of the loop over \<open>valueList\<close>, for the entry \<open>raw\<close>.\<close>

definition numberStep :: "(string \<Rightarrow> int \<Rightarrow> int option) \<Rightarrow> numberLoop \<Rightarrow> string \<Rightarrow> numberLoop" where
  "numberStep toUInt st raw =
     (let stringValue = trimmed raw;
          st1 =
            (if stringValue = [] then
               (let v = wrap32 (val st + 1) in
                  (st\<lparr>val := v\<rparr>,
                   if baseString st = [] then setNum v
                   else baseString st @ '' + '' @ setNum v))
             else
               (case toUInt stringValue (literalBase stringValue) of
                  None \<Rightarrow> (st\<lparr>baseString := stringValue, val := 0\<rparr>, stringValue)
                | Some n \<Rightarrow>
                    (let v = wrap32 n in
                       (st\<lparr>val := v, baseString := []\<rparr>, setNum v))));
          st2 = fst st1;
          st3 = (if val st2 > maxValue st2 then st2\<lparr>maxValue := val st2\<rparr> else st2)
      in st3\<lparr>numbers := numbers st3 @ [snd st1]\<rparr>)"

definition numberLoopRun :: "(string \<Rightarrow> int \<Rightarrow> int option) \<Rightarrow> string list \<Rightarrow> numberLoop" where
  "numberLoopRun toUInt vs = foldl (numberStep toUInt) numberLoopInit vs"

text \<open>
  The closing statement \<open>minbitwidth = (int)ceil(log2(maxValue + 1))\<close>. For the
  arguments that occur (integers from 2 to \<open>2^31 - 1\<close>) the double precision
  computation yields the exact ceiling of the binary logarithm, which is
  \<open>ceillog2\<close>. When \<open>maxValue\<close> is \<open>INT_MAX\<close> the addition overflows, which C++
  leaves undefined: the result is \<open>None\<close>.
\<close>

definition bitsFor :: "int \<Rightarrow> int option" where
  "bitsFor m =
     (if m > 0 then
        (if m = INT_MAX then None else Some (int (ceillog2 (nat (m + 1)))))
      else Some 8)"

definition computeNumberList ::
    "(string \<Rightarrow> int \<Rightarrow> int option) \<Rightarrow> EnumCreator \<Rightarrow> EnumCreator option" where
  "computeNumberList toUInt e =
     (let st = numberLoopRun toUInt (valueList e) in
      case bitsFor (maxValue st) of
        None \<Rightarrow> None
      | Some b \<Rightarrow> Some (e\<lparr>numberList := numberList e @ numbers st, minbitwidth := b\<rparr>))"

text \<open>The values the running counter takes, one after each entry.\<close>

definition counterValues :: "(string \<Rightarrow> int \<Rightarrow> int option) \<Rightarrow> string list \<Rightarrow> int list" where
  "counterValues toUInt vs = map (\<lambda>k. val (numberLoopRun toUInt (take (Suc k) vs))) [0 ..< length vs]"

section \<open>The command line front end: \<open>main\<close>\<close>

text \<open>\<open>QString::contains(str, Qt::CaseInsensitive)\<close> and \<open>QString::endsWith\<close>.\<close>

definition toLowerChar :: "char \<Rightarrow> char" where
  "toLowerChar c =
     (case map_of (zip ''ABCDEFGHIJKLMNOPQRSTUVWXYZ'' ''abcdefghijklmnopqrstuvwxyz'') c of
        None \<Rightarrow> c | Some l \<Rightarrow> l)"

fun containsStr :: "string \<Rightarrow> string \<Rightarrow> bool" where
  "containsStr [] p = (p = [])"
| "containsStr (c # cs) p = (startsWith (c # cs) p \<or> containsStr cs p)"

definition containsCI :: "string \<Rightarrow> string \<Rightarrow> bool" where
  "containsCI s p = containsStr (map toLowerChar s) (map toLowerChar p)"

definition endsWith :: "string \<Rightarrow> string \<Rightarrow> bool" where
  "endsWith s p = startsWith (rev s) (rev p)"

text \<open>
  What \<open>main\<close> asks of its surroundings: whether \<open>QFile::open\<close> succeeds on a file
  name, whether \<open>QDomDocument::setContent\<close> accepts the file as well-formed XML, and
  what \<open>ProtocolParser::parse\<close> returns for the document and the three switches. The
  parser is the only part of the program that writes output files.
\<close>

record world =
  fileOpens :: "string \<Rightarrow> bool"
  setContent :: "string \<Rightarrow> bool"
  parserParse :: "string \<Rightarrow> bool \<Rightarrow> bool \<Rightarrow> bool \<Rightarrow> bool"

text \<open>What \<open>main\<close> does that can be observed from outside, in order.\<close>

datatype event =
    Cout string
  | MkPath string
  | SetCurrent string
  | ParserParse string bool bool bool

text \<open>The variables set by the loop over the arguments.\<close>

record arguments =
  nodoxygen :: bool
  nomarkdown :: bool
  nohelperfiles :: bool
  filename :: string
  path :: string

definition argumentStep :: "arguments \<Rightarrow> string \<Rightarrow> arguments" where
  "argumentStep a arg =
     (if containsCI arg ''-no-doxygen'' then a\<lparr>nodoxygen := True\<rparr>
      else if containsCI arg ''-no-markdown'' then a\<lparr>nomarkdown := True\<rparr>
      else if containsCI arg ''-no-helper-files'' then a\<lparr>nohelperfiles := True\<rparr>
      else if endsWith arg ''.xml'' then a\<lparr>filename := arg\<rparr>
      else if arg \<noteq> filename a then a\<lparr>path := arg\<rparr>
      else a)"

text \<open>
  \<open>main\<close>, given the argument list (the program name first): the exit code and the
  observable events. \<open>Return\<close> starts at 1 and is assigned 0 on the three failure
  branches; the result of \<open>parser.parse\<close> is tested, but both outcomes leave
  \<open>Return\<close> at 1.
\<close>

definition main :: "world \<Rightarrow> string list \<Rightarrow> int \<times> event list" where
  "main w args =
     (let Return = 1 in
      if length args \<le> 1 then
        (0, [Cout ''Protocol generator usage:'',
             Cout ''ProtoGen input.xml [outputpath] [-no-doxygen] [-no-markdown] [-no-helper-files]''])
      else
        (let a = foldl argumentStep
                   \<lparr>nodoxygen = False, nomarkdown = False, nohelperfiles = False,
                    filename = args ! 1, path = []\<rparr> (tl args)
         in
         if filename a \<noteq> [] then
           (if fileOpens w (filename a) then
              (if setContent w (filename a) then
                 (let dirs = (if path a \<noteq> [] then [MkPath (path a), SetCurrent (path a)] else []);
                      ok = parserParse w (filename a) (nodoxygen a) (nomarkdown a) (nohelperfiles a);
                      Return = (if ok then 1 else Return)
                  in (Return,
                      dirs @ [ParserParse (filename a) (nodoxygen a) (nomarkdown a) (nohelperfiles a)]))
               else
                 (0, [Cout (''failed to validate xml from file: '' @ filename a)]))
            else
              (0, [Cout (''failed to open protocol file: '' @ filename a)]))
         else
           (0, [Cout ''must provide a protocol file.''])))"

definition isCout :: "event \<Rightarrow> bool" where
  "isCout ev = (case ev of Cout _ \<Rightarrow> True | _ \<Rightarrow> False)"

section \<open>Encodables and structures\<close>

text \<open>
  The members of the class \<open>Encodable\<close> that the modelled functions read and write. The
  classes \<open>Encodable\<close> and \<open>ProtocolField\<close> are declared outside the files at hand; a
  child of a structure is represented by the record of its names and attributes.
\<close>

record Encodable =
  name :: string
  array :: string
  variableArray :: string
  dependsOn :: string
  primitive :: bool
  notEncoded :: bool
  notInMemory :: bool
  constantValue :: string
  defaultValue :: string
  bitfieldBits :: "int option"
  startingBitCount :: int
  terminatesBitfield :: bool

text \<open>Modelled from the spec: \<open>is_primitive()\<close>, true of a primitive field and false of a
  nested structure.\<close>

definition isPrimitive :: "Encodable \<Rightarrow> bool" where
  "isPrimitive e = primitive e"

text \<open>Modelled from the spec: the flag \<open>not_encoded\<close> of a field.\<close>

definition isNotEncoded :: "Encodable \<Rightarrow> bool" where
  "isNotEncoded e = notEncoded e"

text \<open>Modelled from the spec: the flag \<open>not_in_memory\<close> of a field.\<close>

definition isNotInMemory :: "Encodable \<Rightarrow> bool" where
  "isNotInMemory e = notInMemory e"

text \<open>Modelled from the spec: a field with the \<open>constant\<close> attribute.\<close>

definition isConstant :: "Encodable \<Rightarrow> bool" where
  "isConstant e = (constantValue e \<noteq> [])"

text \<open>Modelled from the spec: \<open>is_array()\<close>, true when the \<open>array\<close> attribute is present.\<close>

definition isArray :: "'a Encodable_scheme \<Rightarrow> bool" where
  "isArray e = (array e \<noteq> [])"

text \<open>Modelled from the spec: a bitfield is a primitive field with \<open>bitfield_bits\<close>.\<close>

definition isBitfield :: "Encodable \<Rightarrow> bool" where
  "isBitfield e = (primitive e \<and> bitfieldBits e \<noteq> None)"

text \<open>Modelled from the spec: \<open>uses_bitfields()\<close>, which feeds the flag \<open>has_bitfields\<close>.\<close>

definition usesBitfields :: "Encodable \<Rightarrow> bool" where
  "usesBitfields e = isBitfield e"

text \<open>Modelled from the spec: \<open>needs_iterator\<close> is true when the child is itself an array.\<close>

definition usesIterator :: "Encodable \<Rightarrow> bool" where
  "usesIterator e = isArray e"

text \<open>Modelled from the spec: a default field is one with the \<open>default\<close> attribute.\<close>

definition isDefault :: "Encodable \<Rightarrow> bool" where
  "isDefault e = (defaultValue e \<noteq> [])"

text \<open>Modelled from the spec: \<open>uses_defaults()\<close>, which feeds the flag \<open>has_defaults\<close>.\<close>

definition usesDefaults :: "Encodable \<Rightarrow> bool" where
  "usesDefaults e = isDefault e"

text \<open>Modelled from the spec: revoking a default removes the \<open>default\<close> attribute.\<close>

definition clearDefaults :: "Encodable \<Rightarrow> Encodable" where
  "clearDefaults e = e\<lparr>defaultValue := []\<rparr>"

text \<open>Modelled from the spec: the setter of \<open>terminates_bitfield\<close>.\<close>

definition setTerminatesBitfield :: "bool \<Rightarrow> Encodable \<Rightarrow> Encodable" where
  "setTerminatesBitfield b e = e\<lparr>terminatesBitfield := b\<rparr>"

text \<open>Modelled from the spec: the setter of \<open>starting_bit_count\<close>.\<close>

definition setStartingBitCount :: "int \<Rightarrow> Encodable \<Rightarrow> Encodable" where
  "setStartingBitCount n e = e\<lparr>startingBitCount := n\<rparr>"

text \<open>Modelled from the spec: the ending bit count of a bitfield is its starting bit
  count plus its number of bits (bits 3, 5, 8 start at 0, 3, 8).\<close>

definition getEndingBitCount :: "Encodable \<Rightarrow> int" where
  "getEndingBitCount e = startingBitCount e + (case bitfieldBits e of None \<Rightarrow> 0 | Some b \<Rightarrow> b)"

text \<open>The members of \<open>ProtocolStructure\<close>, which is itself an \<open>Encodable\<close>. An entry of
  \<open>enumList\<close> stands for an enumeration by its declaration text (\<open>getOutput()\<close>).\<close>

record ProtocolStructure = Encodable +
  protoName :: string
  prefix :: string
  typeName :: string
  comment :: string
  minEncodedLength :: string
  nonDefaultEncodedLength :: string
  encodables :: "Encodable list"
  enumList :: "string list"
  bitfields :: bool
  needsIterator :: bool
  defaults :: bool

subsection \<open>\<open>ProtocolStructure::parseChildren\<close>\<close>

text \<open>
  The state of the loop over the child nodes: the structure being filled, the local
  pointer \<open>prevEncodable\<close> (the position in \<open>encodables\<close> of the object it points to),
  and the lines written to standard output.
\<close>

record parseLoop =
  self :: ProtocolStructure
  prevEncodable :: "nat option"
  cout :: "string list"

text \<open>
  The search for the sibling that a \<open>variableArray\<close> or \<open>dependsOn\<close> attribute names:
  the value of \<open>prev\<close> when the inner loop ends, counted from the start of the list.
\<close>

fun searchPrev :: "Encodable list \<Rightarrow> string \<Rightarrow> nat" where
  "searchPrev [] ref = 0"
| "searchPrev (p # rest) ref =
     (if isNotEncoded p \<or> isNotInMemory p then Suc (searchPrev rest ref)
      else if \<not> isPrimitive p \<and> \<not> isArray p then Suc (searchPrev rest ref)
      else if name p = ref then 0
      else Suc (searchPrev rest ref))"

text \<open>Tracking the metadata of an encoded primitive child, and revoking earlier defaults.\<close>

definition trackMetadata :: "parseLoop \<Rightarrow> Encodable \<Rightarrow> parseLoop" where
  "trackMetadata st encodable =
     (let s = self st;
          s1 = (if usesBitfields encodable then s\<lparr>bitfields := True\<rparr> else s);
          s2 = (if usesIterator encodable then s1\<lparr>needsIterator := True\<rparr> else s1)
      in if usesDefaults encodable then st\<lparr>self := s2\<lparr>defaults := True\<rparr>\<rparr>
         else if defaults s2 then
           st\<lparr>self := s2\<lparr>encodables := map clearDefaults (encodables s2), defaults := False\<rparr>,
              cout := cout st @
                map (\<lambda>x. name s2 @ '': '' @ name x @
                          '': default value ignored, field is followed by non-default'')
                    (encodables s2)\<rparr>
         else st\<lparr>self := s2\<rparr>)"

text \<open>The variable array case: the attribute and the diagnostic lines.\<close>

definition checkVariableArray :: "string \<Rightarrow> Encodable list \<Rightarrow> Encodable \<Rightarrow> Encodable \<times> string list" where
  "checkVariableArray structName es encodable =
     (if variableArray encodable \<noteq> [] then
        (if searchPrev es (variableArray encodable) \<ge> length es then
           (encodable\<lparr>variableArray := []\<rparr>,
            [structName @ '': '' @ name encodable @
             '': variable length array ignored, failed to find length variable''])
         else (encodable, []))
      else (encodable, []))"

text \<open>The dependsOn case.\<close>

definition checkDependsOn :: "string \<Rightarrow> Encodable list \<Rightarrow> Encodable \<Rightarrow> Encodable \<times> string list" where
  "checkDependsOn structName es encodable =
     (if dependsOn encodable \<noteq> [] then
        (if isBitfield encodable then
           (encodable\<lparr>dependsOn := []\<rparr>,
            [structName @ '': '' @ name encodable @ '': bitfields cannot use dependsOn''])
         else if searchPrev es (dependsOn encodable) \<ge> length es then
           (encodable\<lparr>dependsOn := []\<rparr>,
            [structName @ '': '' @ name encodable @
             '': dependsOn ignored, failed to find dependsOn variable''])
         else (encodable, []))
      else (encodable, []))"

text \<open>
  Closing and chaining bitfield groups: the new child is assumed to terminate its group;
  when the previous encoded child and the new one are both bitfields, the previous one
  stops being the terminator and the new one starts where the previous one ends.
\<close>

definition linkBitfields :: "nat option \<Rightarrow> Encodable list \<Rightarrow> Encodable \<Rightarrow> Encodable list \<times> Encodable" where
  "linkBitfields prev es encodable =
     (let e1 = (if isBitfield encodable then setTerminatesBitfield True encodable else encodable)
      in case prev of
           None \<Rightarrow> (es, e1)
         | Some i \<Rightarrow>
             (if isBitfield (es ! i) \<and> isBitfield e1 then
                (let p = setTerminatesBitfield False (es ! i)
                 in (es[i := p], setStartingBitCount (getEndingBitCount p) e1))
              else (es, e1)))"

text \<open>The body of the loop for a child node that \<open>generateEncodable\<close> turned into an encodable.\<close>

definition parseChild :: "parseLoop \<Rightarrow> Encodable \<Rightarrow> parseLoop" where
  "parseChild st encodable =
     (if \<not> isNotEncoded encodable then
        (let st1 = (if isPrimitive encodable then trackMetadata st encodable
                    else if isArray encodable then st\<lparr>self := (self st)\<lparr>needsIterator := True\<rparr>\<rparr>
                    else st);
             s1 = self st1;
             va = checkVariableArray (name s1) (encodables s1) encodable;
             dep = checkDependsOn (name s1) (encodables s1) (fst va);
             lnk = linkBitfields (prevEncodable st1) (encodables s1) (fst dep)
         in st1\<lparr>self := s1\<lparr>encodables := fst lnk @ [snd lnk]\<rparr>,
                prevEncodable := Some (length (encodables s1)),
                cout := cout st1 @ snd va @ snd dep\<rparr>)
      else st\<lparr>self := (self st)\<lparr>encodables := encodables (self st) @ [encodable]\<rparr>\<rparr>)"

text \<open>
  The loop over the child nodes. \<open>generateEncodable\<close> yields \<open>NULL\<close> for a node that is
  not an encodable (\<open>None\<close> here), and such a node is skipped.
\<close>

definition parseChildNode :: "parseLoop \<Rightarrow> Encodable option \<Rightarrow> parseLoop" where
  "parseChildNode st child = (case child of None \<Rightarrow> st | Some encodable \<Rightarrow> parseChild st encodable)"

definition parseChildren :: "ProtocolStructure \<Rightarrow> Encodable option list \<Rightarrow> parseLoop" where
  "parseChildren s children =
     foldl parseChildNode \<lparr>self = s, prevEncodable = None, cout = []\<rparr> children"

subsection \<open>Notions used to state the properties of \<open>parseChildren\<close>\<close>

definition revoking :: "parseLoop \<Rightarrow> Encodable \<Rightarrow> bool" where
  "revoking st e = (isPrimitive e \<and> \<not> usesDefaults e \<and> defaults (self st))"

definition earlier :: "parseLoop \<Rightarrow> Encodable \<Rightarrow> Encodable list" where
  "earlier st e = (if revoking st e then map clearDefaults (encodables (self st)) else encodables (self st))"

definition checked :: "parseLoop \<Rightarrow> Encodable \<Rightarrow> Encodable" where
  "checked st e = fst (checkDependsOn (name (self st)) (earlier st e)
                    (fst (checkVariableArray (name (self st)) (earlier st e) e)))"

text \<open>What a step may do to a child that is already in the list.\<close>

definition touch :: "bool \<Rightarrow> bool \<Rightarrow> Encodable \<Rightarrow> Encodable" where
  "touch rv un x = (if un then setTerminatesBitfield False else id) ((if rv then clearDefaults else id) x)"

definition encodedPrimitive :: "Encodable \<Rightarrow> bool" where
  "encodedPrimitive e = (\<not> isNotEncoded e \<and> isPrimitive e)"

definition candidate :: "Encodable \<Rightarrow> bool" where
  "candidate p = (\<not> isNotEncoded p \<and> \<not> isNotInMemory p \<and> (isPrimitive p \<or> isArray p))"




definition dependsOnIgnored :: "string \<Rightarrow> Encodable \<Rightarrow> string" where
  "dependsOnIgnored structName x =
     structName @ '': '' @ name x @ '': dependsOn ignored, failed to find dependsOn variable''"

definition bitfieldDependsOn :: "string \<Rightarrow> Encodable \<Rightarrow> string" where
  "bitfieldDependsOn structName x =
     structName @ '': '' @ name x @ '': bitfields cannot use dependsOn''"


definition lastEncoded :: "Encodable list \<Rightarrow> nat \<Rightarrow> bool" where
  "lastEncoded es i =
     (i < length es \<and> \<not> isNotEncoded (es ! i)
      \<and> (\<forall>k. i < k \<and> k < length es \<longrightarrow> isNotEncoded (es ! k)))"

definition nextEncoded :: "Encodable list \<Rightarrow> nat \<Rightarrow> nat \<Rightarrow> bool" where
  "nextEncoded es i j =
     (i < j \<and> j < length es \<and> \<not> isNotEncoded (es ! i) \<and> \<not> isNotEncoded (es ! j)
      \<and> (\<forall>k. i < k \<and> k < j \<longrightarrow> isNotEncoded (es ! k)))"

definition bitfieldInv :: "parseLoop \<Rightarrow> bool" where
  "bitfieldInv st =
     ((case prevEncodable st of
         None \<Rightarrow> (\<forall>k < length (encodables (self st)). isNotEncoded (encodables (self st) ! k))
       | Some i \<Rightarrow> lastEncoded (encodables (self st)) i)
      \<and> (\<forall>i j. nextEncoded (encodables (self st)) i j \<and> isBitfield (encodables (self st) ! i) \<longrightarrow>
             (terminatesBitfield (encodables (self st) ! i) \<longleftrightarrow> \<not> isBitfield (encodables (self st) ! j))
           \<and> (isBitfield (encodables (self st) ! j) \<longrightarrow>
                 startingBitCount (encodables (self st) ! j) = getEndingBitCount (encodables (self st) ! i)))
      \<and> (\<forall>i. lastEncoded (encodables (self st)) i \<and> isBitfield (encodables (self st) ! i) \<longrightarrow>
             terminatesBitfield (encodables (self st) ! i)))"

definition exampleField :: "string \<Rightarrow> Encodable" where
  "exampleField n = \<lparr>name = n, array = [], variableArray = [], dependsOn = [], primitive = True,
     notEncoded = False, notInMemory = False, constantValue = [], defaultValue = [],
     bitfieldBits = None, startingBitCount = 0, terminatesBitfield = False\<rparr>"

definition exampleStructure :: ProtocolStructure where
  "exampleStructure = \<lparr>name = ''S'', array = [], variableArray = [], dependsOn = [], primitive = False,
     notEncoded = False, notInMemory = False, constantValue = [], defaultValue = [],
     bitfieldBits = None, startingBitCount = 0, terminatesBitfield = False,
     protoName = ''P'', prefix = [], typeName = ''S_t'', comment = [], minEncodedLength = [],
     nonDefaultEncodedLength = [], encodables = [], enumList = [], bitfields = False,
     needsIterator = False,
     defaults = False\<rparr>"

section \<open>Packets: \<open>ProtocolPacket\<close>\<close>

subsection \<open>Output files\<close>

text \<open>
  The generator writes through two objects of the class \<open>ProtocolFile\<close>, the header and
  the source of a module. The text of a file is recorded as the sequence of calls made
  on it: \<open>write(text)\<close>, \<open>makeLineSeparator()\<close> and \<open>writeIncludeDirective(name)\<close>.
\<close>

datatype token =
    Write string
  | LineSeparator
  | Include string

record ProtocolFile =
  moduleName :: string
  appending :: bool
  contents :: "token list"
  disk :: "token list"

text \<open>Modelled from the spec: \<open>write(text)\<close> appends text to the buffer of the writer.\<close>

definition fileWrite :: "token list \<Rightarrow> ProtocolFile \<Rightarrow> ProtocolFile" where
  "fileWrite ts f = f\<lparr>contents := contents f @ ts\<rparr>"

text \<open>Modelled from the spec: a module's files are named after the module.\<close>

definition setModuleName :: "string \<Rightarrow> ProtocolFile \<Rightarrow> ProtocolFile" where
  "setModuleName m f = f\<lparr>moduleName := m\<rparr>"

definition fileName :: "ProtocolFile \<Rightarrow> string" where
  "fileName f = moduleName f @ ''.h''"

text \<open>Modelled from the spec: \<open>prepareToAppend()\<close> opens an existing file, after which
  \<open>isAppending()\<close> is true; \<open>exists\<close> tells whether the file is there.\<close>

definition prepareToAppend :: "bool \<Rightarrow> ProtocolFile \<Rightarrow> ProtocolFile" where
  "prepareToAppend exists f = f\<lparr>appending := exists\<rparr>"

definition isAppending :: "ProtocolFile \<Rightarrow> bool" where
  "isAppending f = appending f"

text \<open>Modelled from the spec: \<open>flush()\<close> hands the buffer to the file on disk, \<open>clear()\<close>
  resets the writer for the next module.\<close>

definition flush :: "ProtocolFile \<Rightarrow> ProtocolFile" where
  "flush f = f\<lparr>disk := disk f @ contents f\<rparr>"

definition clearFile :: "ProtocolFile \<Rightarrow> ProtocolFile" where
  "clearFile f = f\<lparr>moduleName := [], appending := False, contents := []\<rparr>"

subsection \<open>What the packet code calls but does not define\<close>

text \<open>
  The text-producing virtual methods of the children (\<open>getEncodeString\<close>,
  \<open>getDecodeString\<close> and so on, which for a primitive field are defined outside the files
  at hand), and the helpers of \<open>ProtocolParser\<close>, are arguments of the model. The encode
  and decode strings take the running bit count and return it updated, as the C++
  methods do through the pointer \<open>bitcount\<close>. The alignment of the lines of a structure
  declaration (\<open>alignStructureData\<close>) is an argument as well: it only lays out the
  header text, and nothing stated here depends on it.
\<close>

record methods =
  getEncodeString :: "Encodable \<Rightarrow> bool \<Rightarrow> int \<Rightarrow> bool \<Rightarrow> string \<times> int"
  getDecodeString :: "Encodable \<Rightarrow> bool \<Rightarrow> int \<Rightarrow> bool \<Rightarrow> bool \<Rightarrow> string \<times> int"
  getSetToDefaultsString :: "Encodable \<Rightarrow> bool \<Rightarrow> string"
  getEncodeParameterComment :: "Encodable \<Rightarrow> string"
  getDecodeParameterComment :: "Encodable \<Rightarrow> string"
  getEncodeSignature :: "Encodable \<Rightarrow> string"
  getDecodeSignature :: "Encodable \<Rightarrow> string"
  getIncludeDirective :: "Encodable \<Rightarrow> string"
  getPrototypeEncodeString :: "Encodable \<Rightarrow> bool \<Rightarrow> string"
  getPrototypeDecodeString :: "Encodable \<Rightarrow> bool \<Rightarrow> string"
  getChildStructureDeclaration :: "Encodable \<Rightarrow> bool \<Rightarrow> string"
  getDeclaration :: "Encodable \<Rightarrow> string"
  alignStructureData :: "string \<Rightarrow> string"
  outputLongComment :: "string \<Rightarrow> string \<Rightarrow> string"
  outputIncludes :: "(string \<times> string) list \<Rightarrow> token list"

text \<open>A DOM element, as far as the packet code reads it: its attributes.
  \<open>QDomElement::attribute\<close> yields the empty string for a missing attribute.\<close>

type_synonym element = "(string \<times> string) list"

definition attribute :: "element \<Rightarrow> string \<Rightarrow> string" where
  "attribute e k = (case map_of e k of None \<Rightarrow> [] | Some v \<Rightarrow> v)"

definition toUpperChar :: "char \<Rightarrow> char" where
  "toUpperChar c =
     (case map_of (zip ''abcdefghijklmnopqrstuvwxyz'' ''ABCDEFGHIJKLMNOPQRSTUVWXYZ'') c of
        None \<Rightarrow> c | Some u \<Rightarrow> u)"

definition toUpper :: "string \<Rightarrow> string" where
  "toUpper s = map toUpperChar s"

text \<open>The backslash of the Doxygen commands in the generated comments.\<close>

definition bs :: string where
  "bs = [CHR 0x5C]"

subsection \<open>The packet\<close>

record ProtocolSupport =
  specialFloat :: bool
  bitfield :: bool

record ProtocolPacket = ProtocolStructure +
  support :: ProtocolSupport
  isBigEndian :: bool
  id_str :: string
  header :: ProtocolFile
  source :: ProtocolFile

definition getNumberOfEncodes :: "'a ProtocolStructure_scheme \<Rightarrow> nat" where
  "getNumberOfEncodes p = length (filter (\<lambda>e. \<not> isNotEncoded e) (encodables p))"

definition getNumberOfNonConstEncodes :: "'a ProtocolStructure_scheme \<Rightarrow> nat" where
  "getNumberOfNonConstEncodes p =
     length (filter (\<lambda>e. \<not> (isNotEncoded e \<or> isNotInMemory e \<or> isConstant e)) (encodables p))"

definition getPacketEncodeBriefComment :: "ProtocolPacket \<Rightarrow> string" where
  "getPacketEncodeBriefComment p = ''Create the '' @ prefix p @ name p @ '' packet''"

definition getPacketDecodeBriefComment :: "ProtocolPacket \<Rightarrow> string" where
  "getPacketDecodeBriefComment p = ''Decode the '' @ prefix p @ name p @ '' packet''"

definition getDataEncodeParameterList :: "methods \<Rightarrow> ProtocolPacket \<Rightarrow> string" where
  "getDataEncodeParameterList M p = concat (map (getEncodeSignature M) (encodables p))"

definition getDataDecodeParameterList :: "methods \<Rightarrow> ProtocolPacket \<Rightarrow> string" where
  "getDataDecodeParameterList M p = concat (map (getDecodeSignature M) (encodables p))"

definition getPacketEncodeSignature :: "methods \<Rightarrow> ProtocolPacket \<Rightarrow> string" where
  "getPacketEncodeSignature M p =
     (if length (encodables p) > 0 then
        ''void encode'' @ prefix p @ name p @ ''Packet(void* pkt'' @ getDataEncodeParameterList M p @ '')''
      else ''void encode'' @ prefix p @ name p @ ''Packet(void* pkt)'')"

definition getPacketDecodeSignature :: "methods \<Rightarrow> ProtocolPacket \<Rightarrow> string" where
  "getPacketDecodeSignature M p =
     (if length (encodables p) > 0 then
        ''int decode'' @ prefix p @ name p @ ''Packet(const void* pkt'' @ getDataDecodeParameterList M p @ '')''
      else ''int decode'' @ prefix p @ name p @ ''Packet(const void* pkt)'')"

text \<open>\<open>ProtocolStructure::getStructureDeclaration\<close>, for the packet itself.\<close>

definition getStructureDeclaration :: "methods \<Rightarrow> ProtocolPacket \<Rightarrow> bool \<Rightarrow> string" where
  "getStructureDeclaration M p alwaysCreate =
     (if length (encodables p) > 0 then
        concat (map (\<lambda>c. if \<not> isPrimitive c then getChildStructureDeclaration M c True @ ''\<newline>'' else [])
                    (encodables p))
        @ (if length (encodables p) > 1 \<or> alwaysCreate then
             (if comment p \<noteq> [] then
                ''/*!\<newline>'' @ outputLongComment M '' *'' (comment p) @ ''\<newline>'' @ '' */\<newline>''
              else [])
             @ ''typedef struct\<newline>'' @ ''{\<newline>''
             @ alignStructureData M (concat (map (getDeclaration M) (encodables p)))
             @ ''}'' @ typeName p @ '';\<newline>''
           else [])
      else [])"

subsection \<open>The loops over the children\<close>

text \<open>
  The loop of the encode functions: for every child a line separator and its encode
  string, with the bit count carried from child to child.
\<close>

fun encodeLoop :: "methods \<Rightarrow> bool \<Rightarrow> bool \<Rightarrow> Encodable list \<Rightarrow> int \<Rightarrow> token list" where
  "encodeLoop M bigEndian isStructureMember [] bitcount = []"
| "encodeLoop M bigEndian isStructureMember (e # es) bitcount =
     (let r = getEncodeString M e bigEndian bitcount isStructureMember
      in LineSeparator # Write (fst r) # encodeLoop M bigEndian isStructureMember es (snd r))"

text \<open>
  The first loop of the decode functions, which stops at the first child with a default:
  started with \<open>i\<close> and \<open>bitcount\<close> on the children from position \<open>i\<close> on, it yields the
  final \<open>i\<close>, the final \<open>bitcount\<close> and what was written. The line separator is made
  before the test, so it is also made for the child at which the loop breaks.
\<close>

fun decodeNonDefaults ::
    "methods \<Rightarrow> bool \<Rightarrow> bool \<Rightarrow> Encodable list \<Rightarrow> nat \<Rightarrow> int \<Rightarrow> nat \<times> int \<times> token list" where
  "decodeNonDefaults M bigEndian isStructureMember [] i bitcount = (i, bitcount, [])"
| "decodeNonDefaults M bigEndian isStructureMember (e # es) i bitcount =
     (if isDefault e then (i, bitcount, [LineSeparator])
      else
        (let r = getDecodeString M e bigEndian bitcount isStructureMember True;
             rest = decodeNonDefaults M bigEndian isStructureMember es (Suc i) (snd r)
         in (fst rest, fst (snd rest), LineSeparator # Write (fst r) # snd (snd rest))))"

text \<open>The second loop of the decode functions, over the children from position \<open>i\<close> on.\<close>

fun decodeLoop :: "methods \<Rightarrow> bool \<Rightarrow> bool \<Rightarrow> Encodable list \<Rightarrow> int \<Rightarrow> token list" where
  "decodeLoop M bigEndian isStructureMember [] bitcount = []"
| "decodeLoop M bigEndian isStructureMember (e # es) bitcount =
     (let r = getDecodeString M e bigEndian bitcount isStructureMember True
      in LineSeparator # Write (fst r) # decodeLoop M bigEndian isStructureMember es (snd r))"

text \<open>
  The part of a decode function from the first loop to the last: the children without
  default, the check of the actual length, and the remaining children.
\<close>

definition decodeFields :: "methods \<Rightarrow> ProtocolPacket \<Rightarrow> bool \<Rightarrow> token list" where
  "decodeFields M p isStructureMember =
     (let first = decodeNonDefaults M (isBigEndian p) isStructureMember (encodables p) 0 0;
          i = fst first;
          bitcount = fst (snd first)
      in snd (snd first)
         @ (if minEncodedLength p \<noteq> nonDefaultEncodedLength p \<and> i > 0 then
              [LineSeparator,
               Write ''    // Used variable length arrays or dependent fields, check actual length\<newline>'',
               Write ''    if(numBytes < byteindex)\<newline>'',
               Write ''        return 0;\<newline>'']
            else [])
         @ decodeLoop M (isBigEndian p) isStructureMember (drop i (encodables p)) bitcount)"

subsection \<open>\<open>ProtocolPacket::createStructurePacketFunctions\<close>\<close>

text \<open>What the function writes to the header.\<close>

definition createStructurePacketFunctions_header :: "methods \<Rightarrow> ProtocolPacket \<Rightarrow> token list" where
  "createStructurePacketFunctions_header M p =
     (if getNumberOfEncodes p > 0 then
        [LineSeparator,
         Write (''//! '' @ getPacketEncodeBriefComment p @ ''\<newline>'')]
        @ (if getNumberOfNonConstEncodes p > 0 then
             [Write (''void encode'' @ prefix p @ name p @ ''PacketStructure(void* pkt, const ''
                     @ typeName p @ ''* user);\<newline>'')]
           else
             [Write (''void encode'' @ prefix p @ name p @ ''PacketStructure(void* pkt);\<newline>'')])
        @ [LineSeparator,
           Write (''//! '' @ getPacketDecodeBriefComment p @ ''\<newline>''),
           Write (''int decode'' @ prefix p @ name p @ ''PacketStructure(const void* pkt, ''
                  @ typeName p @ ''* user);\<newline>'')]
      else [])"

text \<open>The encode function written to the source when there are encoded children.\<close>

definition structureEncodeFunction :: "methods \<Rightarrow> ProtocolPacket \<Rightarrow> token list" where
  "structureEncodeFunction M p =
     [LineSeparator,
      Write ''/*!\<newline>'',
      Write ('' * '' @ bs @ ''brief '' @ getPacketEncodeBriefComment p @ ''\<newline>''),
      Write '' *\<newline>'',
      Write (outputLongComment M '' *'' (comment p) @ ''\<newline>''),
      Write ('' * '' @ bs @ ''param pkt points to the packet which will be created by this function\<newline>'')]
     @ (if getNumberOfNonConstEncodes p > 0 then
          [Write ('' * '' @ bs @ ''param user points to the user data that will be encoded in pkt\<newline>''),
           Write '' */\<newline>'',
           Write (''void encode'' @ prefix p @ name p @ ''PacketStructure(void* pkt, const ''
                  @ typeName p @ ''* user)\<newline>''),
           Write ''{\<newline>'']
        else
          [Write '' */\<newline>'',
           Write (''void encode'' @ prefix p @ name p @ ''PacketStructure(void* pkt)\<newline>''),
           Write ''{\<newline>''])
     @ [Write (''    uint8_t* data = get'' @ protoName p @ ''PacketData(pkt);\<newline>''),
        Write ''    int byteindex = 0;\<newline>'']
     @ (if bitfields p then [Write ''    int bitcount = 0;\<newline>''] else [])
     @ (if needsIterator p then [Write ''    int i = 0;\<newline>''] else [])
     @ encodeLoop M (isBigEndian p) True (encodables p) 0
     @ [LineSeparator,
        Write ''    // complete the process of creating the packet\<newline>'',
        Write (''    finish'' @ protoName p @ ''Packet(pkt, byteindex, get'' @ prefix p @ name p
               @ ''PacketID());\<newline>''),
        Write ''}\<newline>'']"

text \<open>The decode function written to the source when there are encoded children.\<close>

definition structureDecodeFunction :: "methods \<Rightarrow> ProtocolPacket \<Rightarrow> token list" where
  "structureDecodeFunction M p =
     [LineSeparator,
      Write ''/*!\<newline>'',
      Write ('' * '' @ bs @ ''brief '' @ getPacketDecodeBriefComment p @ ''\<newline>''),
      Write '' *\<newline>'',
      Write (outputLongComment M '' *'' (comment p) @ ''\<newline>''),
      Write ('' * '' @ bs @ ''param pkt points to the packet being decoded by this function\<newline>''),
      Write ('' * '' @ bs @ ''param user receives the data decoded from the packet\<newline>''),
      Write ('' * '' @ bs @ ''return 0 is returned if the packet ID or size is wrong, else 1\<newline>''),
      Write '' */\<newline>'',
      Write (''int decode'' @ prefix p @ name p @ ''PacketStructure(const void* pkt, ''
             @ typeName p @ ''* user)\<newline>''),
      Write ''{\<newline>'',
      Write ''    int numBytes;\<newline>'',
      Write ''    int byteindex = 0;\<newline>'',
      Write ''    const uint8_t* data;\<newline>'']
     @ (if bitfields p then [Write ''    int bitcount = 0;\<newline>''] else [])
     @ (if needsIterator p then [Write ''    int i = 0;\<newline>''] else [])
     @ [Write ''\<newline>'',
        Write ''    // Verify the packet identifier\<newline>'',
        Write (''    if(get'' @ protoName p @ ''PacketID(pkt) != get'' @ prefix p @ name p
               @ ''PacketID())\<newline>''),
        Write ''        return 0;\<newline>'',
        Write ''\<newline>'',
        Write ''    // Verify the packet size\<newline>'',
        Write (''    numBytes = get'' @ protoName p @ ''PacketSize(pkt);\<newline>''),
        Write (''    if(numBytes < get'' @ prefix p @ name p @ ''MinDataLength())\<newline>''),
        Write ''        return 0;\<newline>'',
        Write ''\<newline>'',
        Write ''    // The raw data from the packet\<newline>'',
        Write (''    data = get'' @ protoName p @ ''PacketDataConst(pkt);\<newline>''),
        LineSeparator]
     @ (if defaults p then
          Write ''    // this packet has default fields, make sure they are set\<newline>''
          # map (\<lambda>e. Write (getSetToDefaultsString M e True)) (encodables p)
        else [])
     @ [LineSeparator]
     @ decodeFields M p True
     @ [LineSeparator,
        Write ''    return 1;\<newline>'',
        Write ''}\<newline>'']"

text \<open>The two functions written to the source when no child is encoded.\<close>

definition structureEmptyFunctions :: "methods \<Rightarrow> ProtocolPacket \<Rightarrow> token list" where
  "structureEmptyFunctions M p =
     [LineSeparator,
      Write ''/*!\<newline>'',
      Write ('' * '' @ bs @ ''brief '' @ getPacketEncodeBriefComment p @ ''\<newline>''),
      Write '' *\<newline>'',
      Write (outputLongComment M '' *'' (comment p) @ ''\<newline>''),
      Write ('' * '' @ bs @ ''param pkt points to the packet which will be created by this function\<newline>''),
      Write '' */\<newline>'',
      Write (''void encode'' @ prefix p @ name p @ ''PacketStructure(void* pkt)\<newline>''),
      Write ''{\<newline>'',
      Write ''    // create a zero length packet\<newline>'',
      Write (''    finish'' @ protoName p @ ''Packet(pkt, 0, get'' @ prefix p @ name p
             @ ''PacketID());\<newline>''),
      Write ''}\<newline>'',
      Write ''\<newline>'',
      Write ''/*!\<newline>'',
      Write ('' * '' @ bs @ ''brief '' @ getPacketDecodeBriefComment p @ ''\<newline>''),
      Write '' *\<newline>'',
      Write (outputLongComment M '' *'' (comment p) @ ''\<newline>''),
      Write ('' * '' @ bs @ ''param pkt points to the packet being decoded by this function\<newline>''),
      Write ('' * '' @ bs @ ''return 0 is returned if the packet ID is wrong, else 1\<newline>''),
      Write '' */\<newline>'',
      Write (''int decode'' @ prefix p @ name p @ ''PacketStructure(const void* pkt)\<newline>''),
      Write ''{\<newline>'',
      Write (''    if(get'' @ protoName p @ ''PacketID(pkt) != get'' @ prefix p @ name p
             @ ''PacketID())\<newline>''),
      Write ''        return 0;\<newline>'',
      Write ''    else\<newline>'',
      Write ''        return 1;\<newline>'',
      Write ''}\<newline>'']"

text \<open>What the function writes to the source.\<close>

definition createStructurePacketFunctions_source :: "methods \<Rightarrow> ProtocolPacket \<Rightarrow> token list" where
  "createStructurePacketFunctions_source M p =
     (if getNumberOfEncodes p > 0 then structureEncodeFunction M p @ structureDecodeFunction M p
      else structureEmptyFunctions M p)"

definition createStructurePacketFunctions :: "methods \<Rightarrow> ProtocolPacket \<Rightarrow> ProtocolPacket" where
  "createStructurePacketFunctions M p =
     p\<lparr>header := fileWrite (createStructurePacketFunctions_header M p) (header p),
       source := fileWrite (createStructurePacketFunctions_source M p) (source p)\<rparr>"

subsection \<open>\<open>ProtocolPacket::createPacketFunctions\<close>\<close>

definition createPacketFunctions_header :: "methods \<Rightarrow> ProtocolPacket \<Rightarrow> token list" where
  "createPacketFunctions_header M p =
     [LineSeparator,
      Write (''//! '' @ getPacketEncodeBriefComment p @ ''\<newline>''),
      Write (getPacketEncodeSignature M p @ '';\<newline>''),
      LineSeparator,
      Write (''//! '' @ getPacketDecodeBriefComment p @ ''\<newline>''),
      Write (getPacketDecodeSignature M p @ '';\<newline>'')]"

text \<open>The encode function written to the source when there are encoded children.\<close>

definition parameterEncodeFunction :: "methods \<Rightarrow> ProtocolPacket \<Rightarrow> token list" where
  "parameterEncodeFunction M p =
     [LineSeparator,
      Write ''/*!\<newline>'',
      Write ('' * '' @ bs @ ''brief '' @ getPacketEncodeBriefComment p @ ''\<newline>''),
      Write '' *\<newline>'',
      Write (outputLongComment M '' *'' (comment p) @ ''\<newline>''),
      Write ('' * '' @ bs @ ''param pkt points to the packet which will be created by this function\<newline>'')]
     @ map (\<lambda>e. Write (getEncodeParameterComment M e)) (encodables p)
     @ [Write '' */\<newline>'',
        Write (getPacketEncodeSignature M p @ ''\<newline>''),
        Write ''{\<newline>'',
        Write (''    uint8_t* data = get'' @ protoName p @ ''PacketData(pkt);\<newline>''),
        Write ''    int byteindex = 0;\<newline>'']
     @ (if bitfields p then [Write ''    int bitcount = 0;\<newline>''] else [])
     @ (if needsIterator p then [Write ''    int i = 0;\<newline>''] else [])
     @ encodeLoop M (isBigEndian p) False (encodables p) 0
     @ [LineSeparator,
        Write ''    // complete the process of creating the packet\<newline>'',
        Write (''    finish'' @ protoName p @ ''Packet(pkt, byteindex, get'' @ prefix p @ name p
               @ ''PacketID());\<newline>''),
        Write ''}\<newline>'']"

text \<open>The decode function written to the source when there are encoded children.\<close>

definition parameterDecodeFunction :: "methods \<Rightarrow> ProtocolPacket \<Rightarrow> token list" where
  "parameterDecodeFunction M p =
     [Write ''\<newline>'',
      Write ''/*!\<newline>'',
      Write ('' * '' @ bs @ ''brief '' @ getPacketDecodeBriefComment p @ ''\<newline>''),
      Write '' *\<newline>'',
      Write (outputLongComment M '' *'' (comment p) @ ''\<newline>''),
      Write ('' * '' @ bs @ ''param pkt points to the packet being decoded by this function\<newline>'')]
     @ map (\<lambda>e. Write (getDecodeParameterComment M e)) (encodables p)
     @ [Write ('' * '' @ bs @ ''return 0 is returned if the packet ID or size is wrong, else 1\<newline>''),
        Write '' */\<newline>'',
        Write (getPacketDecodeSignature M p @ ''\<newline>''),
        Write ''{\<newline>'']
     @ (if bitfields p then [Write ''    int bitcount = 0;\<newline>''] else [])
     @ (if needsIterator p then [Write ''    int i = 0;\<newline>''] else [])
     @ [Write ''    int byteindex = 0;\<newline>'',
        Write (''    const uint8_t* data = get'' @ protoName p @ ''PacketDataConst(pkt);\<newline>''),
        Write (''    int numBytes = get'' @ protoName p @ ''PacketSize(pkt);\<newline>''),
        Write ''\<newline>'',
        Write (''    if(get'' @ protoName p @ ''PacketID(pkt) != get'' @ prefix p @ name p
               @ ''PacketID())\<newline>''),
        Write ''        return 0;\<newline>'',
        Write ''\<newline>'',
        Write (''    if(numBytes < get'' @ prefix p @ name p @ ''MinDataLength())\<newline>''),
        Write ''        return 0;\<newline>'']
     @ (if defaults p then
          [Write ''\<newline>'',
           Write ''    // this packet has default fields, make sure they are set\<newline>'']
          @ map (\<lambda>e. Write (getSetToDefaultsString M e False)) (encodables p)
        else [])
     @ decodeFields M p False
     @ [LineSeparator,
        Write ''    return 1;\<newline>'',
        Write ''}\<newline>'']"

text \<open>The two functions written to the source when no child is encoded.\<close>

definition parameterEmptyFunctions :: "methods \<Rightarrow> ProtocolPacket \<Rightarrow> token list" where
  "parameterEmptyFunctions M p =
     [LineSeparator,
      Write ''/*!\<newline>'',
      Write ('' * '' @ bs @ ''brief '' @ getPacketEncodeBriefComment p @ ''\<newline>''),
      Write '' *\<newline>'',
      Write (outputLongComment M '' *'' (comment p) @ ''\<newline>''),
      Write ('' * '' @ bs @ ''param pkt points to the packet which will be created by this function\<newline>''),
      Write '' */\<newline>'',
      Write (getPacketEncodeSignature M p @ ''\<newline>''),
      Write ''{\<newline>'',
      Write ''    // create a zero length packet\<newline>'',
      Write (''    finish'' @ protoName p @ ''Packet(pkt, 0, get'' @ prefix p @ name p
             @ ''PacketID());\<newline>''),
      Write ''}\<newline>'',
      Write ''\<newline>'',
      Write ''/*!\<newline>'',
      Write ('' * '' @ bs @ ''brief '' @ getPacketDecodeBriefComment p @ ''\<newline>''),
      Write '' *\<newline>'',
      Write (outputLongComment M '' *'' (comment p) @ ''\<newline>''),
      Write ('' * '' @ bs @ ''param pkt points to the packet being decoded by this function\<newline>''),
      Write ('' * '' @ bs @ ''return 0 is returned if the packet ID is wrong, else 1\<newline>''),
      Write '' */\<newline>'',
      Write (getPacketDecodeSignature M p @ ''\<newline>''),
      Write ''{\<newline>'',
      Write (''    if(get'' @ protoName p @ ''PacketID(pkt) != get'' @ prefix p @ name p
             @ ''PacketID())\<newline>''),
      Write ''        return 0;\<newline>'',
      Write ''    else\<newline>'',
      Write ''        return 1;\<newline>'',
      Write ''}\<newline>'']"

definition createPacketFunctions_source :: "methods \<Rightarrow> ProtocolPacket \<Rightarrow> token list" where
  "createPacketFunctions_source M p =
     (if getNumberOfEncodes p > 0 then parameterEncodeFunction M p @ parameterDecodeFunction M p
      else parameterEmptyFunctions M p)"

definition createPacketFunctions :: "methods \<Rightarrow> ProtocolPacket \<Rightarrow> ProtocolPacket" where
  "createPacketFunctions M p =
     p\<lparr>header := fileWrite (createPacketFunctions_header M p) (header p),
       source := fileWrite (createPacketFunctions_source M p) (source p)\<rparr>"

subsection \<open>\<open>createSubStructureFunctions\<close> and \<open>createUtilityFunctions\<close>\<close>

definition createSubStructureFunctions :: "methods \<Rightarrow> ProtocolPacket \<Rightarrow> ProtocolPacket" where
  "createSubStructureFunctions M p =
     p\<lparr>source := fileWrite
         (concat (map (\<lambda>e. if isPrimitive e then []
                           else [LineSeparator, Write (getPrototypeEncodeString M e (isBigEndian p)),
                                 LineSeparator, Write (getPrototypeDecodeString M e (isBigEndian p))])
                      (encodables p)))
         (source p)\<rparr>"

definition createUtilityFunctions :: "element \<Rightarrow> ProtocolPacket \<Rightarrow> ProtocolPacket" where
  "createUtilityFunctions e p0 =
     (let p = p0\<lparr>id_str := (if attribute e ''ID'' = [] then toUpper (name p0) else attribute e ''ID'')\<rparr>
      in p\<lparr>header := fileWrite
             [LineSeparator,
              Write (''//! return the packet ID for the '' @ prefix p @ name p @ '' packet\<newline>''),
              Write (''uint32_t get'' @ prefix p @ name p @ ''PacketID(void);\<newline>''),
              LineSeparator,
              Write (''//! return the minimum data length for the '' @ prefix p @ name p @ '' packet\<newline>''),
              Write (''int get'' @ prefix p @ name p @ ''MinDataLength(void);\<newline>'')]
             (header p),
           source := fileWrite
             ([LineSeparator,
               Write ''/*!\<newline>'',
               Write ('' * '' @ bs @ ''return the packet ID for the '' @ prefix p @ name p @ '' packet\<newline>''),
               Write '' */\<newline>'',
               Write (''uint32_t get'' @ prefix p @ name p @ ''PacketID(void)\<newline>''),
               Write ''{\<newline>'',
               Write (''    return '' @ id_str p @ '';\<newline>''),
               Write ''}\<newline>'',
               LineSeparator,
               Write ''/*!\<newline>'',
               Write ('' * '' @ bs @ ''return the minimum data length in bytes for the '' @ prefix p @ name p
                      @ '' packet\<newline>''),
               Write '' */\<newline>'',
               Write (''int get'' @ prefix p @ name p @ ''MinDataLength(void)\<newline>''),
               Write ''{\<newline>'']
              @ (if minEncodedLength p = [] then [Write ''    return 0;\<newline>'']
                 else [Write (''    return '' @ minEncodedLength p @ '';\<newline>'')])
              @ [Write ''}\<newline>''])
             (source p)\<rparr>)"

subsection \<open>\<open>ProtocolPacket::parse\<close>\<close>

text \<open>
  The choice of the interfaces: the pair of \<open>structureFunctions\<close> and
  \<open>parameterFunctions\<close>.
\<close>

definition chooseInterfaces :: "element \<Rightarrow> ProtocolPacket \<Rightarrow> bool \<times> bool" where
  "chooseInterfaces e p =
     (let structureFunctions = containsCI (attribute e ''structureInterface'') ''true'';
          parameterFunctions = containsCI (attribute e ''parameterInterface'') ''true''
      in if length (encodables p) \<le> 0 then (False, True)
         else if structureFunctions = False \<and> parameterFunctions = False then
           (if length (encodables p) \<le> 1 then (structureFunctions, True)
            else (True, parameterFunctions))
         else (structureFunctions, parameterFunctions))"

text \<open>
  \<open>ProtocolPacket::parse\<close> from the point where \<open>ProtocolStructure::parse\<close> has returned:
  the packet has its name, attributes, children, flags and lengths filled in. The
  function is given in the order of its statements, one definition for each stretch.
\<close>

text \<open>A packet cannot be an array and cannot depend on anything: the attributes are
  cleared, with a line on standard output for each.\<close>

definition rejectArray :: "ProtocolPacket \<Rightarrow> ProtocolPacket \<times> string list" where
  "rejectArray p =
     (if isArray p then (p\<lparr>array := [], variableArray := []\<rparr>, [name p @ '': packets cannot be an array''])
      else (p, []))"

definition rejectDependsOn :: "ProtocolPacket \<Rightarrow> ProtocolPacket \<times> string list" where
  "rejectDependsOn p =
     (if dependsOn p \<noteq> [] then (p\<lparr>dependsOn := []\<rparr>, [name p @ '': dependsOn makes no sense for a packet''])
      else (p, []))"

text \<open>The names of the files, and whether they are appended to: \<open>headerExists\<close> and
  \<open>sourceExists\<close> tell whether the files of the module are already there.\<close>

definition openFiles :: "bool \<Rightarrow> bool \<Rightarrow> element \<Rightarrow> ProtocolPacket \<Rightarrow> ProtocolPacket" where
  "openFiles headerExists sourceExists e p =
     (let moduleName = attribute e ''file'';
          m = (if moduleName = [] then prefix p @ name p @ ''Packet'' else moduleName)
      in p\<lparr>header := prepareToAppend headerExists (setModuleName m (header p)),
           source := prepareToAppend sourceExists (setModuleName m (source p))\<rparr>)"

text \<open>The top of the header: the file comment, the include directives, the enumerations.\<close>

definition writeHeaderTop :: "methods \<Rightarrow> element \<Rightarrow> ProtocolPacket \<Rightarrow> ProtocolPacket" where
  "writeHeaderTop M e p =
     p\<lparr>header := fileWrite
         ((if \<not> isAppending (header p) then
             [Write ''/*!\<newline>'',
              Write ('' * '' @ bs @ ''file\<newline>''),
              Write ('' * '' @ bs @ ''brief '' @ fileName (header p) @ '' defines the interface for the ''
                     @ name p @ '' packet of the '' @ protoName p @ '' protocol stack\<newline>'')]
             @ (if comment p \<noteq> [] then
                  [Write '' *\<newline>'',
                   Write (outputLongComment M '' *'' (comment p) @ ''\<newline>'')]
                else [])
             @ [Write '' */\<newline>'',
                LineSeparator,
                Include (protoName p @ ''Protocol.h'')]
           else [LineSeparator])
          @ outputIncludes M e
          @ map (\<lambda>c. Include (getIncludeDirective M c)) (encodables p)
          @ [LineSeparator]
          @ concat (map (\<lambda>en. [LineSeparator, Write en]) (enumList p))
          @ [LineSeparator])
         (header p)\<rparr>"

text \<open>The structure definition in the header.\<close>

definition writeStructureDeclaration :: "methods \<Rightarrow> bool \<Rightarrow> ProtocolPacket \<Rightarrow> ProtocolPacket" where
  "writeStructureDeclaration M structureFunctions p =
     p\<lparr>header := fileWrite
         [Write (getStructureDeclaration M p structureFunctions), LineSeparator] (header p)\<rparr>"

text \<open>The helper files included in the source, once.\<close>

definition includeHelpers :: "ProtocolPacket \<Rightarrow> ProtocolPacket" where
  "includeHelpers p =
     (if \<not> isAppending (source p) then
        p\<lparr>source := fileWrite
           ([LineSeparator]
            @ (if specialFloat (support p) then [Include ''floatspecial.h''] else [])
            @ (if bitfield (support p) then [Include ''bitfieldspecial.h''] else [])
            @ [Include ''fielddecode.h'', Include ''fieldencode.h'',
               Include ''scaleddecode.h'', Include ''scaledencode.h''])
           (source p)\<rparr>
      else p)"

text \<open>Writing to disk, and emptying the writers for the next packet.\<close>

definition finishFiles :: "ProtocolPacket \<Rightarrow> ProtocolPacket" where
  "finishFiles p =
     (let p1 = p\<lparr>header := fileWrite [LineSeparator] (header p)\<rparr>;
          p2 = p1\<lparr>header := flush (header p1), source := flush (source p1)\<rparr>
      in p2\<lparr>header := clearFile (header p2), source := clearFile (source p2)\<rparr>)"

text \<open>The functions of the chosen interfaces.\<close>

definition createInterfaces :: "methods \<Rightarrow> bool \<times> bool \<Rightarrow> ProtocolPacket \<Rightarrow> ProtocolPacket" where
  "createInterfaces M choice p =
     (let structureFunctions = fst choice;
          parameterFunctions = snd choice;
          p1 = (if structureFunctions then
                  (if length (encodables p) > 0 then createStructurePacketFunctions M p else p)
                else p)
      in if parameterFunctions then createPacketFunctions M p1 else p1)"

text \<open>The whole function: the packet it leaves, and the lines on standard output.\<close>

definition parsePacket ::
    "methods \<Rightarrow> bool \<Rightarrow> bool \<Rightarrow> element \<Rightarrow> ProtocolPacket \<Rightarrow> ProtocolPacket \<times> string list" where
  "parsePacket M headerExists sourceExists e p =
     (let r1 = rejectArray p;
          r2 = rejectDependsOn (fst r1);
          p3 = writeHeaderTop M e (openFiles headerExists sourceExists e (fst r2));
          choice = chooseInterfaces e p3;
          p4 = includeHelpers (writeStructureDeclaration M (fst choice) p3);
          p5 = createInterfaces M choice (createSubStructureFunctions M p4)
      in (finishFiles (createUtilityFunctions e p5), snd r1 @ snd r2))"

subsection \<open>Notions used to state the properties of the generated decode functions\<close>

text \<open>The children before the first one with a default, and the children from it on.\<close>

definition nonDefaultPrefix :: "Encodable list \<Rightarrow> Encodable list" where
  "nonDefaultPrefix es = takeWhile (\<lambda>e. \<not> isDefault e) es"

definition defaultSuffix :: "Encodable list \<Rightarrow> Encodable list" where
  "defaultSuffix es = dropWhile (\<lambda>e. \<not> isDefault e) es"

text \<open>The bit count after the decode strings of a list of children.\<close>

fun decodeBitcount :: "methods \<Rightarrow> bool \<Rightarrow> bool \<Rightarrow> Encodable list \<Rightarrow> int \<Rightarrow> int" where
  "decodeBitcount M bigEndian isStructureMember [] bitcount = bitcount"
| "decodeBitcount M bigEndian isStructureMember (e # es) bitcount =
     decodeBitcount M bigEndian isStructureMember es
       (snd (getDecodeString M e bigEndian bitcount isStructureMember True))"

text \<open>The statements of a generated decode function, by what they do.\<close>

definition verifyPacketIdentifier :: "ProtocolPacket \<Rightarrow> token list" where
  "verifyPacketIdentifier p =
     [Write (''    if(get'' @ protoName p @ ''PacketID(pkt) != get'' @ prefix p @ name p
             @ ''PacketID())\<newline>''),
      Write ''        return 0;\<newline>'']"

definition verifyPacketSize :: "ProtocolPacket \<Rightarrow> token list" where
  "verifyPacketSize p =
     [Write (''    if(numBytes < get'' @ prefix p @ name p @ ''MinDataLength())\<newline>''),
      Write ''        return 0;\<newline>'']"

definition setDefaults :: "methods \<Rightarrow> bool \<Rightarrow> ProtocolPacket \<Rightarrow> token list" where
  "setDefaults M isStructureMember p =
     Write ''    // this packet has default fields, make sure they are set\<newline>''
     # map (\<lambda>e. Write (getSetToDefaultsString M e isStructureMember)) (encodables p)"

definition decodePrefix :: "methods \<Rightarrow> bool \<Rightarrow> ProtocolPacket \<Rightarrow> token list" where
  "decodePrefix M isStructureMember p =
     decodeLoop M (isBigEndian p) isStructureMember (nonDefaultPrefix (encodables p)) 0"

definition decodeSuffix :: "methods \<Rightarrow> bool \<Rightarrow> ProtocolPacket \<Rightarrow> token list" where
  "decodeSuffix M isStructureMember p =
     decodeLoop M (isBigEndian p) isStructureMember (defaultSuffix (encodables p))
       (decodeBitcount M (isBigEndian p) isStructureMember (nonDefaultPrefix (encodables p)) 0)"

definition shortPacketCheck :: "token list" where
  "shortPacketCheck =
     [LineSeparator,
      Write ''    // Used variable length arrays or dependent fields, check actual length\<newline>'',
      Write ''    if(numBytes < byteindex)\<newline>'',
      Write ''        return 0;\<newline>'']"

definition returnOne :: "token list" where
  "returnOne = [LineSeparator, Write ''    return 1;\<newline>'', Write ''}\<newline>'']"

text \<open>The comment, the signature and the local variables of the two decode functions.\<close>

definition structureDecodeHead :: "methods \<Rightarrow> ProtocolPacket \<Rightarrow> token list" where
  "structureDecodeHead M p =
     [LineSeparator,
      Write ''/*!\<newline>'',
      Write ('' * '' @ bs @ ''brief '' @ getPacketDecodeBriefComment p @ ''\<newline>''),
      Write '' *\<newline>'',
      Write (outputLongComment M '' *'' (comment p) @ ''\<newline>''),
      Write ('' * '' @ bs @ ''param pkt points to the packet being decoded by this function\<newline>''),
      Write ('' * '' @ bs @ ''param user receives the data decoded from the packet\<newline>''),
      Write ('' * '' @ bs @ ''return 0 is returned if the packet ID or size is wrong, else 1\<newline>''),
      Write '' */\<newline>'',
      Write (''int decode'' @ prefix p @ name p @ ''PacketStructure(const void* pkt, ''
             @ typeName p @ ''* user)\<newline>''),
      Write ''{\<newline>'',
      Write ''    int numBytes;\<newline>'',
      Write ''    int byteindex = 0;\<newline>'',
      Write ''    const uint8_t* data;\<newline>'']
     @ (if bitfields p then [Write ''    int bitcount = 0;\<newline>''] else [])
     @ (if needsIterator p then [Write ''    int i = 0;\<newline>''] else [])
     @ [Write ''\<newline>'',
        Write ''    // Verify the packet identifier\<newline>'']"

definition parameterDecodeHead :: "methods \<Rightarrow> ProtocolPacket \<Rightarrow> token list" where
  "parameterDecodeHead M p =
     [Write ''\<newline>'',
      Write ''/*!\<newline>'',
      Write ('' * '' @ bs @ ''brief '' @ getPacketDecodeBriefComment p @ ''\<newline>''),
      Write '' *\<newline>'',
      Write (outputLongComment M '' *'' (comment p) @ ''\<newline>''),
      Write ('' * '' @ bs @ ''param pkt points to the packet being decoded by this function\<newline>'')]
     @ map (\<lambda>e. Write (getDecodeParameterComment M e)) (encodables p)
     @ [Write ('' * '' @ bs @ ''return 0 is returned if the packet ID or size is wrong, else 1\<newline>''),
        Write '' */\<newline>'',
        Write (getPacketDecodeSignature M p @ ''\<newline>''),
        Write ''{\<newline>'']
     @ (if bitfields p then [Write ''    int bitcount = 0;\<newline>''] else [])
     @ (if needsIterator p then [Write ''    int i = 0;\<newline>''] else [])
     @ [Write ''    int byteindex = 0;\<newline>'',
        Write (''    const uint8_t* data = get'' @ protoName p @ ''PacketDataConst(pkt);\<newline>''),
        Write (''    int numBytes = get'' @ protoName p @ ''PacketSize(pkt);\<newline>''),
        Write ''\<newline>'']"

text \<open>The bodies of the two functions of a packet without encoded children.\<close>

definition emptyEncodeBody :: "ProtocolPacket \<Rightarrow> token list" where
  "emptyEncodeBody p =
     [Write ''    // create a zero length packet\<newline>'',
      Write (''    finish'' @ protoName p @ ''Packet(pkt, 0, get'' @ prefix p @ name p
             @ ''PacketID());\<newline>'')]"

definition emptyDecodeBody :: "ProtocolPacket \<Rightarrow> token list" where
  "emptyDecodeBody p =
     verifyPacketIdentifier p @ [Write ''    else\<newline>'', Write ''        return 1;\<newline>'']"

text \<open>A packet and methods to try the statements on.\<close>

definition exampleMethods :: methods where
  "exampleMethods =
     \<lparr>getEncodeString = (\<lambda>e bigEndian bitcount isStructureMember. (''    encode '' @ name e @ '';\<newline>'', bitcount)),
      getDecodeString = (\<lambda>e bigEndian bitcount isStructureMember defaultEnabled.
                           (''    decode '' @ name e @ '';\<newline>'', bitcount)),
      getSetToDefaultsString = (\<lambda>e isStructureMember.
                           if isDefault e then ''    '' @ name e @ '' = '' @ defaultValue e @ '';\<newline>'' else []),
      getEncodeParameterComment = (\<lambda>e. []),
      getDecodeParameterComment = (\<lambda>e. []),
      getEncodeSignature = (\<lambda>e. '', uint32_t '' @ name e),
      getDecodeSignature = (\<lambda>e. '', uint32_t* '' @ name e),
      getIncludeDirective = (\<lambda>e. []),
      getPrototypeEncodeString = (\<lambda>e bigEndian. []),
      getPrototypeDecodeString = (\<lambda>e bigEndian. []),
      getChildStructureDeclaration = (\<lambda>e alwaysCreate. []),
      getDeclaration = (\<lambda>e. ''    uint32_t '' @ name e @ '';\<newline>''),
      alignStructureData = (\<lambda>s. s),
      outputLongComment = (\<lambda>pre text. pre @ '' '' @ text),
      outputIncludes = (\<lambda>e. [])\<rparr>"

definition emptyFile :: ProtocolFile where
  "emptyFile = \<lparr>moduleName = [], appending = False, contents = [], disk = []\<rparr>"

definition examplePacket :: "string \<Rightarrow> Encodable list \<Rightarrow> ProtocolPacket" where
  "examplePacket n es =
     \<lparr>name = n, array = [], variableArray = [], dependsOn = [], primitive = False,
      notEncoded = False, notInMemory = False, constantValue = [], defaultValue = [],
      bitfieldBits = None, startingBitCount = 0, terminatesBitfield = False,
      protoName = ''Demo'', prefix = [], typeName = n @ ''_t'', comment = [],
      minEncodedLength = [], nonDefaultEncodedLength = [],
      encodables = es, enumList = [], bitfields = False, needsIterator = False,
      defaults = list_ex isDefault es,
      support = \<lparr>specialFloat = False, bitfield = False\<rparr>, isBigEndian = True, id_str = [],
      header = emptyFile, source = emptyFile\<rparr>"

text \<open>The members of a packet that the generated text depends on.\<close>

definition emitView ::
    "ProtocolPacket \<Rightarrow> (string \<times> string \<times> string \<times> string \<times> string) \<times> Encodable list
                     \<times> (bool \<times> bool \<times> bool) \<times> (string \<times> string) \<times> bool" where
  "emitView p =
     ((prefix p, name p, protoName p, typeName p, comment p), encodables p,
      (bitfields p, needsIterator p, defaults p),
      (minEncodedLength p, nonDefaultEncodedLength p), isBigEndian p)"

text \<open>What \<open>parse\<close> writes to the source and to the header for the chosen interfaces.\<close>

definition interfaceSource :: "methods \<Rightarrow> bool \<times> bool \<Rightarrow> ProtocolPacket \<Rightarrow> token list" where
  "interfaceSource M choice p =
     (if fst choice \<and> encodables p \<noteq> [] then createStructurePacketFunctions_source M p else [])
     @ (if snd choice then createPacketFunctions_source M p else [])"

definition interfaceHeader :: "methods \<Rightarrow> bool \<times> bool \<Rightarrow> ProtocolPacket \<Rightarrow> token list" where
  "interfaceHeader M choice p =
     (if fst choice \<and> encodables p \<noteq> [] then createStructurePacketFunctions_header M p else [])
     @ (if snd choice then createPacketFunctions_header M p else [])"

text \<open>The part of a decode function before the fields: the comment, the signature, the
  local variables, the two checks and (for the structure interface) the data pointer.\<close>

definition structureDecodeChecks :: "methods \<Rightarrow> ProtocolPacket \<Rightarrow> token list" where
  "structureDecodeChecks M p =
     structureDecodeHead M p
     @ verifyPacketIdentifier p
     @ [Write ''\<newline>'',
        Write ''    // Verify the packet size\<newline>'',
        Write (''    numBytes = get'' @ protoName p @ ''PacketSize(pkt);\<newline>'')]
     @ verifyPacketSize p
     @ [Write ''\<newline>'',
        Write ''    // The raw data from the packet\<newline>'',
        Write (''    data = get'' @ protoName p @ ''PacketDataConst(pkt);\<newline>''),
        LineSeparator]"

definition parameterDecodeChecks :: "methods \<Rightarrow> ProtocolPacket \<Rightarrow> token list" where
  "parameterDecodeChecks M p =
     parameterDecodeHead M p @ verifyPacketIdentifier p @ [Write ''\<newline>''] @ verifyPacketSize p"

section \<open>Properties of the enumeration resolver\<close>

lemma numberLoopRun_snoc:
  "numberLoopRun toUInt (vs @ [raw]) = numberStep toUInt (numberLoopRun toUInt vs) raw"
  by (simp add: numberLoopRun_def)

lemma numberStep_empty:
  assumes "trimmed raw = []"
  shows "val (numberStep toUInt st raw) = wrap32 (val st + 1)"
    and "baseString (numberStep toUInt st raw) = baseString st"
    and "numbers (numberStep toUInt st raw) =
           numbers st @ [if baseString st = [] then setNum (wrap32 (val st + 1))
                         else baseString st @ '' + '' @ setNum (wrap32 (val st + 1))]"
  using assms by (simp_all add: numberStep_def Let_def)

lemma numberStep_number:
  assumes "trimmed raw \<noteq> []" and "toUInt (trimmed raw) (literalBase (trimmed raw)) = Some n"
  shows "val (numberStep toUInt st raw) = wrap32 n"
    and "baseString (numberStep toUInt st raw) = []"
    and "numbers (numberStep toUInt st raw) = numbers st @ [setNum (wrap32 n)]"
  using assms by (simp_all add: numberStep_def Let_def)

lemma numberStep_symbol:
  assumes "trimmed raw \<noteq> []" and "toUInt (trimmed raw) (literalBase (trimmed raw)) = None"
  shows "val (numberStep toUInt st raw) = 0"
    and "baseString (numberStep toUInt st raw) = trimmed raw"
    and "numbers (numberStep toUInt st raw) = numbers st @ [trimmed raw]"
  using assms by (simp_all add: numberStep_def Let_def)

lemma numberStep_maxValue:
  "maxValue (numberStep toUInt st raw) = max (maxValue st) (val (numberStep toUInt st raw))"
  by (simp add: numberStep_def Let_def max_def split: option.splits)

lemma wrap32_id: "- 2147483648 \<le> i \<Longrightarrow> i \<le> INT_MAX \<Longrightarrow> wrap32 i = i"
  by (simp add: wrap32_def INT_MAX_def)

lemma wrap32_le: "wrap32 i \<le> INT_MAX"
proof -
  have "(i + 2147483648) mod 4294967296 < 4294967296"
    by (rule pos_mod_bound) simp
  then show ?thesis
    by (simp add: wrap32_def INT_MAX_def)
qed

lemma trimmed_Nil [simp]: "trimmed [] = []"
  by (simp add: trimmed_def)

lemma decimal_digit: "n < 10 \<Longrightarrow> decimal n = [digitChar n]"
  by (simp add: decimal.simps)

lemma setNum_0 [simp]: "setNum 0 = ''0''"
  by (simp add: setNum_def decimal_digit digitChar_def)

lemma setNum_1 [simp]: "setNum 1 = ''1''"
  by (simp add: setNum_def decimal_digit digitChar_def)

lemma setNum_2 [simp]: "setNum 2 = ''2''"
  by (simp add: setNum_def decimal_digit digitChar_def)

lemma wrap32_small [simp]: "wrap32 0 = 0" "wrap32 1 = 1" "wrap32 2 = 2" "wrap32 (- 1 + 1) = 0"
  by (simp_all add: wrap32_def)

lemma trimmed_SOMEWHERE [simp]: "trimmed ''SOMEWHERE'' = ''SOMEWHERE''"
  by (simp add: trimmed_def isSpace_def)

lemma literalBase_SOMEWHERE [simp]: "literalBase ''SOMEWHERE'' = 10"
  by (simp add: literalBase_def startsWith_def)

lemma qt5_toUInt_SOMEWHERE [simp]: "qt5_toUInt ''SOMEWHERE'' 10 = None"
  by (simp add: qt5_toUInt_def parseDigits_def digitValue_def startsWith_def Let_def)

lemma numbers_example:
  assumes "toUInt ''SOMEWHERE'' 10 = None"
  shows "numbers (numberLoopRun toUInt [[], ''SOMEWHERE'', []]) =
           [''0'', ''SOMEWHERE'', ''SOMEWHERE + 1'']"
    and "maxValue (numberLoopRun toUInt [[], ''SOMEWHERE'', []]) = 1"
  using assms
  by (simp_all add: numberLoopRun_def numberLoopInit_def numberStep_def Let_def)

lemma counterValues_snoc:
  "counterValues toUInt (vs @ [raw]) =
     counterValues toUInt vs @ [val (numberLoopRun toUInt (vs @ [raw]))]"
  by (simp add: counterValues_def)

lemma maxValue_numberLoopRun:
  "maxValue (numberLoopRun toUInt vs) = Max (insert 1 (set (counterValues toUInt vs)))"
proof (induction vs rule: rev_induct)
  case Nil
  show ?case by (simp add: numberLoopRun_def numberLoopInit_def counterValues_def)
next
  case (snoc raw vs)
  have "maxValue (numberLoopRun toUInt (vs @ [raw])) =
          max (maxValue (numberLoopRun toUInt vs)) (val (numberLoopRun toUInt (vs @ [raw])))"
    by (simp add: numberLoopRun_snoc numberStep_maxValue)
  also have "\<dots> = Max (insert (val (numberLoopRun toUInt (vs @ [raw])))
                          (insert 1 (set (counterValues toUInt vs))))"
    by (simp add: snoc.IH max.commute)
  finally show ?case
    by (simp add: counterValues_snoc insert_commute)
qed

lemma bitsFor_log:
  assumes "1 \<le> m" and "m < INT_MAX"
  shows "bitsFor m = Some \<lceil>log 2 (real_of_int (m + 1))\<rceil>"
proof -
  have pos: "0 < nat (m + 1)" using assms by simp
  have "1 \<le> real_of_int (m + 1)" using assms by simp
  then have "0 \<le> log 2 (real_of_int (m + 1))" by simp
  then have "0 \<le> \<lceil>log 2 (real_of_int (m + 1))\<rceil>" by linarith
  moreover have "real (nat (m + 1)) = real_of_int (m + 1)" using assms by simp
  ultimately have "int (ceillog2 (nat (m + 1))) = \<lceil>log 2 (real_of_int (m + 1))\<rceil>"
    using pos by (simp add: ceillog2_def)
  then show ?thesis using assms by (simp add: bitsFor_def)
qed


lemma startsWith_two:
  assumes "startsWith s [a, b]"
  shows "\<exists>rest. s = a # b # rest"
proof (cases s)
  case Nil
  with assms show ?thesis by (simp add: startsWith_def)
next
  case (Cons x xs)
  show ?thesis
  proof (cases xs)
    case Nil
    with Cons assms show ?thesis by (simp add: startsWith_def)
  next
    case (Cons y ys)
    with \<open>s = x # xs\<close> assms show ?thesis by (simp add: startsWith_def)
  qed
qed

lemma trimmed_two:
  assumes "\<not> isSpace a" and "\<not> isSpace b"
  shows "\<exists>rest'. trimmed (a # b # rest) = a # b # rest'"
proof -
  have "dropWhile isSpace (rev rest @ b # [a]) = dropWhile isSpace (rev rest) @ b # [a]"
    using assms(2) by (rule dropWhile_append3)
  then have "trimmed (a # b # rest) = a # b # rev (dropWhile isSpace (rev rest))"
    using assms(1) by (simp add: trimmed_def)
  then show ?thesis by blast
qed

lemma literalBase_binary: "startsWith s ''0b'' \<Longrightarrow> literalBase s = 2"
  by (auto simp: literalBase_def startsWith_def)

lemma qt5_toUInt_binary:
  assumes "startsWith s ''0b''"
  shows "qt5_toUInt s 2 = None"
proof -
  obtain rest where s: "s = CHR ''0'' # CHR ''b'' # rest"
    using startsWith_two [OF assms] by blast
  obtain rest' where t: "trimmed s = CHR ''0'' # CHR ''b'' # rest'"
    unfolding s using trimmed_two [of "CHR ''0''" "CHR ''b''" rest] by (auto simp: isSpace_def)
  show ?thesis
    by (simp add: qt5_toUInt_def Let_def t parseDigits_def digitValue_def)
qed

lemma trimmed_0b101 [simp]: "trimmed ''0b101'' = ''0b101''"
  by (simp add: trimmed_def isSpace_def)

lemma numbers_binary_example:
  "numbers (numberLoopRun qt5_toUInt [''0b101'', []]) = [''0b101'', ''0b101 + 1'']"
  "maxValue (numberLoopRun qt5_toUInt [''0b101'', []]) = 1"
proof -
  have b: "startsWith ''0b101'' ''0b''" by (simp add: startsWith_def)
  have n: "qt5_toUInt ''0b101'' (literalBase ''0b101'') = None"
    by (simp add: literalBase_binary [OF b] qt5_toUInt_binary [OF b])
  show "numbers (numberLoopRun qt5_toUInt [''0b101'', []]) = [''0b101'', ''0b101 + 1'']"
    and "maxValue (numberLoopRun qt5_toUInt [''0b101'', []]) = 1"
    using n by (simp_all add: numberLoopRun_def numberLoopInit_def numberStep_def Let_def)
qed

text \<open>
  Claim C7, and where the code departs from it. The resolver walks the value list from
  left to right with a running counter. An entry that is empty (after trimming)
  increments the counter and yields the counter in decimal, or \<open>base + offset\<close> while a
  symbolic base is active. An entry that \<open>toUInt\<close> parses (in base 16 after \<open>0x\<close>, base 2
  after \<open>0b\<close>, else base 10) sets the counter to that number and clears the base. An
  entry that fails to parse becomes the symbolic base, with the counter restarting at
  0. The values \<open>[A, B = SOMEWHERE, C]\<close> give the number list \<open>0\<close>, \<open>SOMEWHERE\<close>,
  \<open>SOMEWHERE + 1\<close>.

  The binary case never yields a number: the entry is handed to \<open>toUInt\<close> in base 2
  together with its prefix \<open>0b\<close>, and Qt 5 does not take \<open>b\<close> for a binary digit. So
  every entry that starts with \<open>0b\<close> becomes a symbolic base: the values
  \<open>[A = 0b101, B]\<close> give \<open>0b101\<close>, \<open>0b101 + 1\<close> and not \<open>5\<close>, \<open>6\<close>.
\<close>

theorem computeNumberList_resolver:
  "numberLoopRun toUInt (vs @ [raw]) = numberStep toUInt (numberLoopRun toUInt vs) raw
   \<and> (trimmed raw = [] \<longrightarrow>
        val (numberStep toUInt st raw) = wrap32 (val st + 1)
      \<and> (val st < INT_MAX \<and> - 2147483648 \<le> val st + 1 \<longrightarrow> val (numberStep toUInt st raw) = val st + 1)
      \<and> baseString (numberStep toUInt st raw) = baseString st
      \<and> numbers (numberStep toUInt st raw) =
            numbers st @ [if baseString st = [] then setNum (val (numberStep toUInt st raw))
                          else baseString st @ '' + '' @ setNum (val (numberStep toUInt st raw))])
   \<and> (trimmed raw \<noteq> [] \<and> toUInt (trimmed raw) (literalBase (trimmed raw)) = Some n \<longrightarrow>
        val (numberStep toUInt st raw) = wrap32 n
      \<and> (0 \<le> n \<and> n \<le> INT_MAX \<longrightarrow> val (numberStep toUInt st raw) = n)
      \<and> baseString (numberStep toUInt st raw) = []
      \<and> numbers (numberStep toUInt st raw) = numbers st @ [setNum (val (numberStep toUInt st raw))])
   \<and> (trimmed raw \<noteq> [] \<and> toUInt (trimmed raw) (literalBase (trimmed raw)) = None \<longrightarrow>
        val (numberStep toUInt st raw) = 0
      \<and> baseString (numberStep toUInt st raw) = trimmed raw
      \<and> numbers (numberStep toUInt st raw) = numbers st @ [trimmed raw])
   \<and> (toUInt ''SOMEWHERE'' 10 = None \<longrightarrow>
        map_option numberList
          (computeNumberList toUInt \<lparr>valueList = [[], ''SOMEWHERE'', []], numberList = [], minbitwidth = 0\<rparr>)
        = Some [''0'', ''SOMEWHERE'', ''SOMEWHERE + 1''])
   \<and> (startsWith (trimmed raw) ''0b'' \<longrightarrow>
        literalBase (trimmed raw) = 2
      \<and> qt5_toUInt (trimmed raw) 2 = None
      \<and> val (numberStep qt5_toUInt st raw) = 0
      \<and> baseString (numberStep qt5_toUInt st raw) = trimmed raw
      \<and> numbers (numberStep qt5_toUInt st raw) = numbers st @ [trimmed raw])
   \<and> map_option numberList
        (computeNumberList qt5_toUInt \<lparr>valueList = [''0b101'', []], numberList = [], minbitwidth = 0\<rparr>)
      = Some [''0b101'', ''0b101 + 1'']"
proof (intro conjI impI)
  show "numberLoopRun toUInt (vs @ [raw]) = numberStep toUInt (numberLoopRun toUInt vs) raw"
    by (rule numberLoopRun_snoc)
next
  assume e: "trimmed raw = []"
  show "val (numberStep toUInt st raw) = wrap32 (val st + 1)"
    by (rule numberStep_empty(1) [OF e])
  show "baseString (numberStep toUInt st raw) = baseString st"
    by (rule numberStep_empty(2) [OF e])
  show "numbers (numberStep toUInt st raw) =
          numbers st @ [if baseString st = [] then setNum (val (numberStep toUInt st raw))
                        else baseString st @ '' + '' @ setNum (val (numberStep toUInt st raw))]"
    by (simp add: numberStep_empty [OF e])
  assume "val st < INT_MAX \<and> - 2147483648 \<le> val st + 1"
  then show "val (numberStep toUInt st raw) = val st + 1"
    by (simp add: numberStep_empty(1) [OF e] wrap32_id)
next
  assume a: "trimmed raw \<noteq> [] \<and> toUInt (trimmed raw) (literalBase (trimmed raw)) = Some n"
  then have t: "trimmed raw \<noteq> []" and p: "toUInt (trimmed raw) (literalBase (trimmed raw)) = Some n"
    by simp_all
  show "val (numberStep toUInt st raw) = wrap32 n"
    using t p by (simp add: numberStep_def Let_def)
  show "baseString (numberStep toUInt st raw) = []"
    using t p by (simp add: numberStep_def Let_def)
  show "numbers (numberStep toUInt st raw) = numbers st @ [setNum (val (numberStep toUInt st raw))]"
    using t p by (simp add: numberStep_def Let_def)
  assume "0 \<le> n \<and> n \<le> INT_MAX"
  then show "val (numberStep toUInt st raw) = n"
    using t p by (simp add: numberStep_def Let_def wrap32_id INT_MAX_def)
next
  assume a: "trimmed raw \<noteq> [] \<and> toUInt (trimmed raw) (literalBase (trimmed raw)) = None"
  then have t: "trimmed raw \<noteq> []" and p: "toUInt (trimmed raw) (literalBase (trimmed raw)) = None"
    by simp_all
  show "val (numberStep toUInt st raw) = 0"
    using t p by (simp add: numberStep_def Let_def)
  show "baseString (numberStep toUInt st raw) = trimmed raw"
    using t p by (simp add: numberStep_def Let_def)
  show "numbers (numberStep toUInt st raw) = numbers st @ [trimmed raw]"
    using t p by (simp add: numberStep_def Let_def)
next
  assume s: "toUInt ''SOMEWHERE'' 10 = None"
  show "map_option numberList
          (computeNumberList toUInt \<lparr>valueList = [[], ''SOMEWHERE'', []], numberList = [], minbitwidth = 0\<rparr>)
        = Some [''0'', ''SOMEWHERE'', ''SOMEWHERE + 1'']"
    using numbers_example [of toUInt] s by (simp add: computeNumberList_def bitsFor_def INT_MAX_def)
next
  assume b: "startsWith (trimmed raw) ''0b''"
  then have t: "trimmed raw \<noteq> []"
    by (auto simp: startsWith_def)
  show l: "literalBase (trimmed raw) = 2"
    using b by (rule literalBase_binary)
  show q: "qt5_toUInt (trimmed raw) 2 = None"
    using b by (rule qt5_toUInt_binary)
  from l q have p: "qt5_toUInt (trimmed raw) (literalBase (trimmed raw)) = None"
    by simp
  show "val (numberStep qt5_toUInt st raw) = 0"
    using t p by (simp add: numberStep_def Let_def)
  show "baseString (numberStep qt5_toUInt st raw) = trimmed raw"
    using t p by (simp add: numberStep_def Let_def)
  show "numbers (numberStep qt5_toUInt st raw) = numbers st @ [trimmed raw]"
    using t p by (simp add: numberStep_def Let_def)
next
  show "map_option numberList
        (computeNumberList qt5_toUInt \<lparr>valueList = [''0b101'', []], numberList = [], minbitwidth = 0\<rparr>)
      = Some [''0b101'', ''0b101 + 1'']"
    by (simp add: computeNumberList_def numbers_binary_example bitsFor_def INT_MAX_def)
qed

lemma trimmed_0x10 [simp]: "trimmed ''0x10'' = ''0x10''"
  by (simp add: trimmed_def isSpace_def)

lemma literalBase_0x10 [simp]: "literalBase ''0x10'' = 16"
  by (simp add: literalBase_def startsWith_def)

lemma qt5_toUInt_0x10 [simp]: "qt5_toUInt ''0x10'' 16 = Some 16"
  by (simp add: qt5_toUInt_def parseDigits_def digitValue_def startsWith_def Let_def)

theorem computeNumberList_resolver_witness:
  "(trimmed [] = [] \<and> val numberLoopInit < INT_MAX \<and> - 2147483648 \<le> val numberLoopInit + 1
      \<and> val (numberStep qt5_toUInt numberLoopInit []) = 0
      \<and> numbers (numberStep qt5_toUInt numberLoopInit []) = [''0''])
   \<and> (trimmed ''0x10'' \<noteq> [] \<and> qt5_toUInt (trimmed ''0x10'') (literalBase (trimmed ''0x10'')) = Some 16
      \<and> (0::int) \<le> 16 \<and> 16 \<le> INT_MAX
      \<and> val (numberStep qt5_toUInt numberLoopInit ''0x10'') = 16
      \<and> baseString (numberStep qt5_toUInt numberLoopInit ''0x10'') = [])
   \<and> (trimmed ''SOMEWHERE'' \<noteq> []
      \<and> qt5_toUInt (trimmed ''SOMEWHERE'') (literalBase (trimmed ''SOMEWHERE'')) = None
      \<and> val (numberStep qt5_toUInt numberLoopInit ''SOMEWHERE'') = 0
      \<and> baseString (numberStep qt5_toUInt numberLoopInit ''SOMEWHERE'') = ''SOMEWHERE'')
   \<and> (qt5_toUInt ''SOMEWHERE'' 10 = None
      \<and> map_option numberList
          (computeNumberList qt5_toUInt \<lparr>valueList = [[], ''SOMEWHERE'', []], numberList = [], minbitwidth = 0\<rparr>)
        = Some [''0'', ''SOMEWHERE'', ''SOMEWHERE + 1''])
   \<and> (startsWith (trimmed ''0b101'') ''0b''
      \<and> qt5_toUInt (trimmed ''0b101'') 2 = None
      \<and> val (numberStep qt5_toUInt numberLoopInit ''0b101'') = 0
      \<and> baseString (numberStep qt5_toUInt numberLoopInit ''0b101'') = ''0b101''
      \<and> numbers (numberStep qt5_toUInt numberLoopInit ''0b101'') = [''0b101''])"
  using computeNumberList_resolver [of qt5_toUInt "[]" "[]" numberLoopInit 0]
        computeNumberList_resolver [of qt5_toUInt "[]" "''0x10''" numberLoopInit 16]
        computeNumberList_resolver [of qt5_toUInt "[]" "''SOMEWHERE''" numberLoopInit 0]
        computeNumberList_resolver [of qt5_toUInt "[]" "''0b101''" numberLoopInit 0]
  by (simp add: numberLoopInit_def INT_MAX_def startsWith_def)

text \<open>
  Claim C6, as the code has it. When the running counter reaches a value of at least 1,
  and its largest value \<open>m\<close> is below \<open>INT_MAX\<close>, \<open>computeNumberList\<close> returns with
  \<open>minbitwidth\<close> equal to the ceiling of the binary logarithm of \<open>m + 1\<close>; no lower
  bound of 8 is applied.
\<close>

theorem computeNumberList_minbitwidth:
  assumes "m \<in> set (counterValues toUInt (valueList e))"
    and "\<forall>c \<in> set (counterValues toUInt (valueList e)). c \<le> m"
    and "1 \<le> m" and "m < INT_MAX"
  shows "\<exists>e'. computeNumberList toUInt e = Some e'
             \<and> minbitwidth e' = \<lceil>log 2 (real_of_int (m + 1))\<rceil>"
proof -
  have "Max (insert 1 (set (counterValues toUInt (valueList e)))) = m"
    using assms(1-3) by (intro Max_eqI) auto
  then have "maxValue (numberLoopRun toUInt (valueList e)) = m"
    by (simp add: maxValue_numberLoopRun)
  then show ?thesis
    by (simp add: computeNumberList_def bitsFor_log [OF assms(3,4)])
qed

lemma counterValues_three_empty:
  "counterValues toUInt [[], [], []] = [0, 1, 2]"
  by (simp add: counterValues_def upt_rec numberLoopRun_def numberLoopInit_def numberStep_def Let_def)

theorem computeNumberList_minbitwidth_witness:
  "counterValues qt5_toUInt (valueList \<lparr>valueList = [[], [], []], numberList = [], minbitwidth = 0\<rparr>) = [0, 1, 2]
   \<and> (1::int) \<le> 2 \<and> 2 < INT_MAX
   \<and> (\<exists>e'. computeNumberList qt5_toUInt \<lparr>valueList = [[], [], []], numberList = [], minbitwidth = 0\<rparr> = Some e'
             \<and> minbitwidth e' = \<lceil>log 2 (real_of_int (2 + 1))\<rceil>)"
  using computeNumberList_minbitwidth
          [of 2 qt5_toUInt "\<lparr>valueList = [[], [], []], numberList = [], minbitwidth = 0\<rparr>"]
  by (simp add: counterValues_three_empty INT_MAX_def)

text \<open>
  Claim C6 as stated fails twice. With the values \<open>[A, B, C]\<close> the counter reaches 2
  and the width is 2, not \<open>max 8 2\<close>. With the single value \<open>A = SOMEWHERE\<close> no number
  is known and the width is 1, not 8: \<open>maxValue\<close> starts at 1, so the branch that
  assigns 8 is never taken.
\<close>

lemma bitsFor_small: "bitsFor 1 = Some 1" "bitsFor 2 = Some 2"
proof -
  have "ceillog2 2 = 1" by simp
  then show "bitsFor 1 = Some 1" by (simp add: bitsFor_def INT_MAX_def)
  have "ceillog2 3 = 2" by (rule ceillog2_eqI) simp_all
  then show "bitsFor 2 = Some 2" by (simp add: bitsFor_def INT_MAX_def)
qed

theorem computeNumberList_minbitwidth_counterexample:
  "\<not> (map_option minbitwidth
         (computeNumberList qt5_toUInt \<lparr>valueList = [[], [], []], numberList = [], minbitwidth = 0\<rparr>)
       = Some (max 8 \<lceil>log 2 (real_of_int (2 + 1))\<rceil>))
   \<and> map_option minbitwidth
         (computeNumberList qt5_toUInt \<lparr>valueList = [[], [], []], numberList = [], minbitwidth = 0\<rparr>)
       = Some 2
   \<and> map_option minbitwidth
         (computeNumberList qt5_toUInt \<lparr>valueList = [''SOMEWHERE''], numberList = [], minbitwidth = 0\<rparr>)
       = Some 1"
proof -
  have a: "maxValue (numberLoopRun qt5_toUInt [[], [], []]) = 2"
    by (simp add: numberLoopRun_def numberLoopInit_def numberStep_def Let_def)
  have b: "maxValue (numberLoopRun qt5_toUInt [''SOMEWHERE'']) = 1"
    by (simp add: numberLoopRun_def numberLoopInit_def numberStep_def Let_def)
  have c: "(2::int) \<noteq> max 8 \<lceil>log 2 (real_of_int (2 + 1))\<rceil>"
    by linarith
  show ?thesis
    using c by (simp add: computeNumberList_def a b bitsFor_small)
qed


section \<open>Properties of \<open>main\<close>\<close>

text \<open>
  The failure branches of \<open>main\<close>: with no argument, with a file that cannot be opened
  and with a file that is not well-formed XML the exit code is 0, and nothing happens
  but lines written to standard output (the parser is never run).
\<close>

lemma main_failure_exit:
  assumes "length args \<le> 1 \<or> (\<forall>f. \<not> fileOpens w f) \<or> (\<forall>f. \<not> setContent w f)"
  shows "fst (main w args) = 0" and "list_all isCout (snd (main w args))"
  using assms by (auto simp: main_def Let_def isCout_def)

lemma main_success_exit:
  assumes "1 < length args" and "\<forall>f. fileOpens w f" and "\<forall>f. setContent w f"
    and "filename (foldl argumentStep
                   \<lparr>nodoxygen = False, nomarkdown = False, nohelperfiles = False,
                    filename = args ! 1, path = []\<rparr> (tl args)) \<noteq> []"
  shows "fst (main w args) = 1"
  using assms by (simp add: main_def Let_def)

lemma containsCI_protocol_xml:
  "\<not> containsCI ''protocol.xml'' ''-no-doxygen''"
  "\<not> containsCI ''protocol.xml'' ''-no-markdown''"
  "\<not> containsCI ''protocol.xml'' ''-no-helper-files''"
  by (simp_all add: containsCI_def toLowerChar_def startsWith_def)

text \<open>
  Claim C9 at a run where the parser fails. The file opens and is well-formed XML, and
  \<open>ProtocolParser::parse\<close> returns \<open>false\<close>: the parser was run, and the exit code is
  1, the code of success.
\<close>

theorem main_exit_code_parse_failure:
  "main \<lparr>fileOpens = (\<lambda>f. True), setContent = (\<lambda>f. True), parserParse = (\<lambda>f d m h. False)\<rparr>
        [''ProtoGen'', ''protocol.xml'']
   = (1, [ParserParse ''protocol.xml'' False False False])"
  by (simp add: main_def Let_def argumentStep_def containsCI_protocol_xml endsWith_def startsWith_def)

section \<open>Properties of \<open>parseChildren\<close>\<close>

lemmas observer_defs = isPrimitive_def isNotEncoded_def isNotInMemory_def isConstant_def isArray_def
  isBitfield_def usesBitfields_def usesIterator_def isDefault_def usesDefaults_def

lemmas mutator_defs = clearDefaults_def setTerminatesBitfield_def setStartingBitCount_def

lemma trackMetadata_fields:
  "encodables (self (trackMetadata st e)) =
     (if \<not> usesDefaults e \<and> defaults (self st) then map clearDefaults (encodables (self st))
      else encodables (self st))"
  "defaults (self (trackMetadata st e)) = usesDefaults e"
  "name (self (trackMetadata st e)) = name (self st)"
  "prevEncodable (trackMetadata st e) = prevEncodable st"
  by (auto simp: trackMetadata_def Let_def)

lemma parseChild_encoded:
  assumes "\<not> isNotEncoded e"
  shows "encodables (self (parseChild st e)) =
           fst (linkBitfields (prevEncodable st) (earlier st e) (checked st e))
           @ [snd (linkBitfields (prevEncodable st) (earlier st e) (checked st e))]"
    and "prevEncodable (parseChild st e) = Some (length (encodables (self st)))"
    and "defaults (self (parseChild st e)) = (if isPrimitive e then usesDefaults e else defaults (self st))"
    and "name (self (parseChild st e)) = name (self st)"
  using assms
  by (auto simp: parseChild_def Let_def trackMetadata_fields earlier_def checked_def revoking_def)

lemma parseChild_not_encoded:
  assumes "isNotEncoded e"
  shows "encodables (self (parseChild st e)) = encodables (self st) @ [e]"
    and "prevEncodable (parseChild st e) = prevEncodable st"
    and "defaults (self (parseChild st e)) = defaults (self st)"
    and "name (self (parseChild st e)) = name (self st)"
    and "cout (parseChild st e) = cout st"
  using assms by (simp_all add: parseChild_def)

lemma touch_fields [simp]:
  "name (touch rv un x) = name x"
  "array (touch rv un x) = array x"
  "primitive (touch rv un x) = primitive x"
  "notEncoded (touch rv un x) = notEncoded x"
  "notInMemory (touch rv un x) = notInMemory x"
  "bitfieldBits (touch rv un x) = bitfieldBits x"
  "variableArray (touch rv un x) = variableArray x"
  "dependsOn (touch rv un x) = dependsOn x"
  "startingBitCount (touch rv un x) = startingBitCount x"
  "defaultValue (touch rv un x) = (if rv then [] else defaultValue x)"
  "terminatesBitfield (touch rv un x) = (\<not> un \<and> terminatesBitfield x)"
  by (simp_all add: touch_def mutator_defs)

lemma length_earlier [simp]: "length (earlier st e) = length (encodables (self st))"
  by (simp add: earlier_def)

lemma earlier_nth:
  "i < length (encodables (self st)) \<Longrightarrow>
     earlier st e ! i = touch (revoking st e) False (encodables (self st) ! i)"
  by (simp add: earlier_def touch_def)

lemma checked_fields [simp]:
  "name (checked st e) = name e"
  "array (checked st e) = array e"
  "primitive (checked st e) = primitive e"
  "notEncoded (checked st e) = notEncoded e"
  "notInMemory (checked st e) = notInMemory e"
  "bitfieldBits (checked st e) = bitfieldBits e"
  "defaultValue (checked st e) = defaultValue e"
  "startingBitCount (checked st e) = startingBitCount e"
  "terminatesBitfield (checked st e) = terminatesBitfield e"
  by (simp_all add: checked_def checkDependsOn_def checkVariableArray_def)



lemma length_linkBitfields [simp]: "length (fst (linkBitfields prev es e)) = length es"
  by (simp add: linkBitfields_def Let_def split: option.splits)

lemma linkBitfields_nth:
  assumes "i < length es"
  shows "fst (linkBitfields prev es e) ! i =
           touch False (prev = Some i \<and> isBitfield (es ! i) \<and> isBitfield e) (es ! i)"
proof (cases prev)
  case None
  then show ?thesis by (simp add: linkBitfields_def Let_def touch_def)
next
  case (Some k)
  show ?thesis
  proof (cases "k = i")
    case True
    then show ?thesis using assms Some
      by (auto simp: linkBitfields_def Let_def touch_def isBitfield_def mutator_defs)
  next
    case False
    then show ?thesis using assms Some
      by (simp add: linkBitfields_def Let_def touch_def)
  qed
qed

lemma linkBitfields_new_fields [simp]:
  "name (snd (linkBitfields prev es e)) = name e"
  "array (snd (linkBitfields prev es e)) = array e"
  "primitive (snd (linkBitfields prev es e)) = primitive e"
  "notEncoded (snd (linkBitfields prev es e)) = notEncoded e"
  "notInMemory (snd (linkBitfields prev es e)) = notInMemory e"
  "bitfieldBits (snd (linkBitfields prev es e)) = bitfieldBits e"
  "defaultValue (snd (linkBitfields prev es e)) = defaultValue e"
  "variableArray (snd (linkBitfields prev es e)) = variableArray e"
  "dependsOn (snd (linkBitfields prev es e)) = dependsOn e"
  by (simp_all add: linkBitfields_def Let_def mutator_defs split: option.splits)

lemma touch_touch: "touch False un (touch rv False x) = touch rv un x"
  by (simp add: touch_def)

lemma isBitfield_touch [simp]: "isBitfield (touch rv un x) = isBitfield x"
  by (simp add: isBitfield_def)

lemma isBitfield_checked [simp]: "isBitfield (checked st e) = isBitfield e"
  by (simp add: isBitfield_def)

lemma length_parseChild [simp]:
  "length (encodables (self (parseChild st e))) = Suc (length (encodables (self st)))"
  by (cases "isNotEncoded e") (simp_all add: parseChild_encoded parseChild_not_encoded)

lemma parseChild_old:
  assumes "i < length (encodables (self st))"
  shows "encodables (self (parseChild st e)) ! i =
           touch (\<not> isNotEncoded e \<and> revoking st e)
                 (\<not> isNotEncoded e \<and> prevEncodable st = Some i
                    \<and> isBitfield (encodables (self st) ! i) \<and> isBitfield e)
                 (encodables (self st) ! i)"
proof (cases "isNotEncoded e")
  case True
  then show ?thesis using assms
    by (simp add: parseChild_not_encoded nth_append touch_def)
next
  case False
  then show ?thesis using assms
    by (simp add: parseChild_encoded nth_append linkBitfields_nth earlier_nth touch_touch)
qed

lemma parseChild_new:
  "encodables (self (parseChild st e)) ! length (encodables (self st)) =
     (if isNotEncoded e then e
      else snd (linkBitfields (prevEncodable st) (earlier st e) (checked st e)))"
  by (cases "isNotEncoded e") (simp_all add: parseChild_encoded parseChild_not_encoded nth_append)

lemma encodedPrimitive_touch [simp]: "encodedPrimitive (touch rv un x) = encodedPrimitive x"
  by (simp add: encodedPrimitive_def isNotEncoded_def isPrimitive_def)

lemma isDefault_touch [simp]: "isDefault (touch rv un x) = (\<not> rv \<and> isDefault x)"
  by (simp add: isDefault_def)

lemma candidate_touch [simp]: "candidate (touch rv un x) = candidate x"
  by (simp add: candidate_def observer_defs)

lemma isNotEncoded_touch [simp]: "isNotEncoded (touch rv un x) = isNotEncoded x"
  by (simp add: isNotEncoded_def)

lemma getEndingBitCount_touch [simp]: "getEndingBitCount (touch rv un x) = getEndingBitCount x"
  by (simp add: getEndingBitCount_def)

lemma new_child_views:
  "encodedPrimitive (encodables (self (parseChild st e)) ! length (encodables (self st))) = encodedPrimitive e"
  "isDefault (encodables (self (parseChild st e)) ! length (encodables (self st))) = isDefault e"
  "isNotEncoded (encodables (self (parseChild st e)) ! length (encodables (self st))) = isNotEncoded e"
  "isBitfield (encodables (self (parseChild st e)) ! length (encodables (self st))) = isBitfield e"
  "name (encodables (self (parseChild st e)) ! length (encodables (self st))) = name e"
  by (simp_all add: parseChild_new encodedPrimitive_def observer_defs)



lemma parseChildren_snoc:
  "parseChildren s (children @ [c]) = parseChildNode (parseChildren s children) c"
  by (simp add: parseChildren_def)




lemma fst_checkVariableArray_fields [simp]:
  "name (fst (checkVariableArray sn es e)) = name e"
  "dependsOn (fst (checkVariableArray sn es e)) = dependsOn e"
  "isBitfield (fst (checkVariableArray sn es e)) = isBitfield e"
  by (simp_all add: checkVariableArray_def isBitfield_def)



lemma searchPrev_le: "searchPrev xs r \<le> length xs"
  by (induction xs) auto





lemma old_child_views:
  assumes "i < length (encodables (self st))"
  shows "candidate (encodables (self (parseChild st e)) ! i) = candidate (encodables (self st) ! i)"
    and "name (encodables (self (parseChild st e)) ! i) = name (encodables (self st) ! i)"
    and "variableArray (encodables (self (parseChild st e)) ! i) = variableArray (encodables (self st) ! i)"
    and "dependsOn (encodables (self (parseChild st e)) ! i) = dependsOn (encodables (self st) ! i)"
    and "isNotEncoded (encodables (self (parseChild st e)) ! i) = isNotEncoded (encodables (self st) ! i)"
    and "isBitfield (encodables (self (parseChild st e)) ! i) = isBitfield (encodables (self st) ! i)"
    and "startingBitCount (encodables (self (parseChild st e)) ! i) = startingBitCount (encodables (self st) ! i)"
    and "getEndingBitCount (encodables (self (parseChild st e)) ! i) = getEndingBitCount (encodables (self st) ! i)"
  using assms by (simp_all add: parseChild_old)



lemma parseChildNode_None [simp]: "parseChildNode st None = st"
  by (simp add: parseChildNode_def)

lemma parseChildNode_Some [simp]: "parseChildNode st (Some e) = parseChild st e"
  by (simp add: parseChildNode_def)


lemma lastEncoded_unique:
  assumes "lastEncoded es i" and "lastEncoded es j"
  shows "i = j"
proof (rule ccontr)
  assume "i \<noteq> j"
  then consider "i < j" | "j < i" by linarith
  then show False
  proof cases
    case 1
    with assms(1) assms(2) show False unfolding lastEncoded_def by blast
  next
    case 2
    with assms(1) assms(2) show False unfolding lastEncoded_def by blast
  qed
qed

lemma linkBitfields_new_bits:
  "terminatesBitfield (snd (linkBitfields prev es e)) = (isBitfield e \<or> terminatesBitfield e)"
  "startingBitCount (snd (linkBitfields prev es e)) =
     (case prev of
        None \<Rightarrow> startingBitCount e
      | Some i \<Rightarrow> if isBitfield (es ! i) \<and> isBitfield e then getEndingBitCount (es ! i)
                  else startingBitCount e)"
  "isBitfield (snd (linkBitfields prev es e)) = isBitfield e"
  by (auto simp: linkBitfields_def Let_def mutator_defs isBitfield_def getEndingBitCount_def
           split: option.splits)

lemma old_child_terminates:
  assumes "i < length (encodables (self st))"
  shows "terminatesBitfield (encodables (self (parseChild st e)) ! i) =
           (\<not> (\<not> isNotEncoded e \<and> prevEncodable st = Some i
                 \<and> isBitfield (encodables (self st) ! i) \<and> isBitfield e)
            \<and> terminatesBitfield (encodables (self st) ! i))"
  using assms by (simp add: parseChild_old)

lemma new_child_bits:
  assumes "\<not> isNotEncoded e" and "prevEncodable st = Some i" and "i < length (encodables (self st))"
  shows "terminatesBitfield (encodables (self (parseChild st e)) ! length (encodables (self st)))
           = (isBitfield e \<or> terminatesBitfield e)"
    and "isBitfield (encodables (self st) ! i) \<Longrightarrow> isBitfield e \<Longrightarrow>
         startingBitCount (encodables (self (parseChild st e)) ! length (encodables (self st)))
           = getEndingBitCount (encodables (self st) ! i)"
  using assms
  by (simp_all add: parseChild_new linkBitfields_new_bits earlier_nth)

lemma new_child_terminates:
  assumes "\<not> isNotEncoded e"
  shows "terminatesBitfield (encodables (self (parseChild st e)) ! length (encodables (self st)))
           = (isBitfield e \<or> terminatesBitfield e)"
  using assms by (simp add: parseChild_new linkBitfields_new_bits)

lemma lastEncoded_snoc_not_encoded:
  assumes len: "length es' = Suc (length es)"
    and same: "\<And>k. k < length es \<Longrightarrow> isNotEncoded (es' ! k) = isNotEncoded (es ! k)"
    and new: "isNotEncoded (es' ! length es)"
  shows "lastEncoded es' i \<longleftrightarrow> lastEncoded es i"
proof
  assume a: "lastEncoded es' i"
  then have "i \<noteq> length es" using new unfolding lastEncoded_def by blast
  with a len have i: "i < length es" unfolding lastEncoded_def by simp
  have "isNotEncoded (es ! k)" if "i < k" "k < length es" for k
  proof -
    have "isNotEncoded (es' ! k)" using a that len unfolding lastEncoded_def by simp
    then show ?thesis using same that by simp
  qed
  moreover have "\<not> isNotEncoded (es ! i)" using a same i unfolding lastEncoded_def by simp
  ultimately show "lastEncoded es i" using i unfolding lastEncoded_def by blast
next
  assume a: "lastEncoded es i"
  then have i: "i < length es" unfolding lastEncoded_def by simp
  have "isNotEncoded (es' ! k)" if "i < k" "k < length es'" for k
  proof (cases "k < length es")
    case True
    then have "isNotEncoded (es ! k)" using a that unfolding lastEncoded_def by blast
    then show ?thesis using same True by simp
  next
    case False
    then have "k = length es" using that len by simp
    then show ?thesis using new by simp
  qed
  moreover have "\<not> isNotEncoded (es' ! i)" using a same i unfolding lastEncoded_def by simp
  ultimately show "lastEncoded es' i" using i len unfolding lastEncoded_def by simp
qed

lemma nextEncoded_snoc_old:
  assumes len: "length es' = Suc (length es)"
    and same: "\<And>k. k < length es \<Longrightarrow> isNotEncoded (es' ! k) = isNotEncoded (es ! k)"
    and j: "j < length es"
  shows "nextEncoded es' i j \<longleftrightarrow> nextEncoded es i j"
proof -
  have eq: "isNotEncoded (es' ! k) = isNotEncoded (es ! k)" if "k \<le> j" for k
    using same j that by simp
  have "(\<forall>k. i < k \<and> k < j \<longrightarrow> isNotEncoded (es' ! k)) = (\<forall>k. i < k \<and> k < j \<longrightarrow> isNotEncoded (es ! k))"
    using eq by simp
  moreover have "i < j \<Longrightarrow> isNotEncoded (es' ! i) = isNotEncoded (es ! i)" using eq by simp
  moreover have "isNotEncoded (es' ! j) = isNotEncoded (es ! j)" using eq by simp
  ultimately show ?thesis
    unfolding nextEncoded_def using len j by auto
qed

lemma nextEncoded_snoc_new:
  assumes len: "length es' = Suc (length es)"
    and same: "\<And>k. k < length es \<Longrightarrow> isNotEncoded (es' ! k) = isNotEncoded (es ! k)"
    and new: "\<not> isNotEncoded (es' ! length es)"
  shows "nextEncoded es' i (length es) \<longleftrightarrow> lastEncoded es i"
proof -
  have "(\<forall>k. i < k \<and> k < length es \<longrightarrow> isNotEncoded (es' ! k))
        = (\<forall>k. i < k \<and> k < length es \<longrightarrow> isNotEncoded (es ! k))"
    using same by simp
  moreover have "i < length es \<Longrightarrow> isNotEncoded (es' ! i) = isNotEncoded (es ! i)" using same by simp
  ultimately show ?thesis
    unfolding nextEncoded_def lastEncoded_def using len new by auto
qed

lemma lastEncoded_snoc_encoded:
  assumes len: "length es' = Suc (length es)" and new: "\<not> isNotEncoded (es' ! length es)"
  shows "lastEncoded es' i \<longleftrightarrow> i = length es"
proof
  assume a: "lastEncoded es' i"
  show "i = length es"
  proof (rule ccontr)
    assume "i \<noteq> length es"
    with a len have "i < length es" unfolding lastEncoded_def by simp
    with a len have "isNotEncoded (es' ! length es)" unfolding lastEncoded_def by simp
    with new show False by simp
  qed
next
  assume "i = length es"
  then show "lastEncoded es' i" using len new unfolding lastEncoded_def by auto
qed

lemma bitfieldInv_parseChild:
  assumes inv: "bitfieldInv st"
  shows "bitfieldInv (parseChild st e)"
proof -
  let ?es = "encodables (self st)"
  let ?es' = "encodables (self (parseChild st e))"
  let ?n = "length ?es"
  have len: "length ?es' = Suc ?n" by simp
  have same: "\<And>k. k < ?n \<Longrightarrow> isNotEncoded (?es' ! k) = isNotEncoded (?es ! k)"
    by (simp add: old_child_views)
  have i1: "case prevEncodable st of
              None \<Rightarrow> (\<forall>k < ?n. isNotEncoded (?es ! k))
            | Some i \<Rightarrow> lastEncoded ?es i"
    using inv unfolding bitfieldInv_def by blast
  have i2: "\<And>i j. nextEncoded ?es i j \<Longrightarrow> isBitfield (?es ! i) \<Longrightarrow>
             (terminatesBitfield (?es ! i) \<longleftrightarrow> \<not> isBitfield (?es ! j))
           \<and> (isBitfield (?es ! j) \<longrightarrow> startingBitCount (?es ! j) = getEndingBitCount (?es ! i))"
    using inv unfolding bitfieldInv_def by blast
  have i3: "\<And>i. lastEncoded ?es i \<Longrightarrow> isBitfield (?es ! i) \<Longrightarrow> terminatesBitfield (?es ! i)"
    using inv unfolding bitfieldInv_def by blast
  have prev_last: "prevEncodable st = Some i" if "lastEncoded ?es i" for i
  proof (cases "prevEncodable st")
    case None
    with i1 have "\<forall>k < ?n. isNotEncoded (?es ! k)" by simp
    with that show ?thesis unfolding lastEncoded_def by blast
  next
    case (Some k)
    with i1 have "lastEncoded ?es k" by simp
    with that have "k = i" by (rule lastEncoded_unique [rotated])
    with Some show ?thesis by simp
  qed
  show ?thesis
  proof (cases "isNotEncoded e")
    case True
    have new: "isNotEncoded (?es' ! ?n)" using True by (simp add: new_child_views)
    have prev: "prevEncodable (parseChild st e) = prevEncodable st"
      using True by (simp add: parseChild_not_encoded)
    have tmn: "\<And>k. k < ?n \<Longrightarrow> terminatesBitfield (?es' ! k) = terminatesBitfield (?es ! k)"
      using True by (simp add: old_child_terminates)
    have last: "\<And>i. lastEncoded ?es' i \<longleftrightarrow> lastEncoded ?es i"
      by (rule lastEncoded_snoc_not_encoded [OF len same new])
    have p1: "case prevEncodable (parseChild st e) of
                None \<Rightarrow> (\<forall>k < length ?es'. isNotEncoded (?es' ! k))
              | Some i \<Rightarrow> lastEncoded ?es' i"
    proof (cases "prevEncodable st")
      case None
      with i1 have "\<forall>k < ?n. isNotEncoded (?es ! k)" by simp
      then have "\<forall>k < Suc ?n. isNotEncoded (?es' ! k)"
        using same new by (simp add: less_Suc_eq)
      then show ?thesis using None prev by simp
    next
      case (Some i)
      with i1 have "lastEncoded ?es i" by simp
      then show ?thesis using Some prev last by simp
    qed
    have p2: "(terminatesBitfield (?es' ! i) \<longleftrightarrow> \<not> isBitfield (?es' ! j))
           \<and> (isBitfield (?es' ! j) \<longrightarrow> startingBitCount (?es' ! j) = getEndingBitCount (?es' ! i))"
      if ne: "nextEncoded ?es' i j" and bf: "isBitfield (?es' ! i)" for i j
    proof -
      have "j \<noteq> ?n" using ne new unfolding nextEncoded_def by blast
      then have j: "j < ?n" using ne unfolding nextEncoded_def by simp
      then have i: "i < ?n" using ne unfolding nextEncoded_def by simp
      have "nextEncoded ?es i j" using ne nextEncoded_snoc_old [OF len same j] by simp
      moreover have "isBitfield (?es ! i)" using bf i by (simp add: old_child_views)
      ultimately show ?thesis using i2 [of i j] i j by (simp add: old_child_views tmn)
    qed
    have p3: "terminatesBitfield (?es' ! i)" if "lastEncoded ?es' i" "isBitfield (?es' ! i)" for i
    proof -
      have l: "lastEncoded ?es i" using that(1) last by simp
      then have i: "i < ?n" unfolding lastEncoded_def by simp
      then have "isBitfield (?es ! i)" using that(2) by (simp add: old_child_views)
      then show ?thesis using i3 [OF l] i tmn by simp
    qed
    show ?thesis unfolding bitfieldInv_def using p1 p2 p3 by blast
  next
    case False
    have new: "\<not> isNotEncoded (?es' ! ?n)" using False by (simp add: new_child_views)
    have prev: "prevEncodable (parseChild st e) = Some ?n"
      using False by (simp add: parseChild_encoded)
    have last: "\<And>i. lastEncoded ?es' i \<longleftrightarrow> i = ?n"
      by (rule lastEncoded_snoc_encoded [OF len new])
    have p1: "case prevEncodable (parseChild st e) of
                None \<Rightarrow> (\<forall>k < length ?es'. isNotEncoded (?es' ! k))
              | Some i \<Rightarrow> lastEncoded ?es' i"
      using prev last by simp
    have p2: "(terminatesBitfield (?es' ! i) \<longleftrightarrow> \<not> isBitfield (?es' ! j))
           \<and> (isBitfield (?es' ! j) \<longrightarrow> startingBitCount (?es' ! j) = getEndingBitCount (?es' ! i))"
      if ne: "nextEncoded ?es' i j" and bf: "isBitfield (?es' ! i)" for i j
    proof (cases "j < ?n")
      case True
      then have i: "i < ?n" using ne unfolding nextEncoded_def by simp
      have n0: "nextEncoded ?es i j" using ne nextEncoded_snoc_old [OF len same True] by simp
      have b0: "isBitfield (?es ! i)" using bf i by (simp add: old_child_views)
      have "\<not> lastEncoded ?es i"
        using n0 True unfolding nextEncoded_def lastEncoded_def by blast
      then have "prevEncodable st \<noteq> Some i" using i1 by auto
      then have "terminatesBitfield (?es' ! i) = terminatesBitfield (?es ! i)"
        using i by (simp add: old_child_terminates)
      then show ?thesis using i2 [OF n0 b0] i True by (simp add: old_child_views)
    next
      case F: False
      then have j: "j = ?n" using ne unfolding nextEncoded_def by simp
      have l: "lastEncoded ?es i" using ne nextEncoded_snoc_new [OF len same new] unfolding j by simp
      then have i: "i < ?n" unfolding lastEncoded_def by simp
      have pr: "prevEncodable st = Some i" by (rule prev_last [OF l])
      have b0: "isBitfield (?es ! i)" using bf i by (simp add: old_child_views)
      have t0: "terminatesBitfield (?es ! i)" by (rule i3 [OF l b0])
      have t: "terminatesBitfield (?es' ! i) = (\<not> isBitfield e)"
        using i False pr b0 t0 by (simp add: old_child_terminates)
      have s: "isBitfield e \<Longrightarrow> startingBitCount (?es' ! ?n) = getEndingBitCount (?es ! i)"
        using new_child_bits(2) [OF False pr i b0] by simp
      show ?thesis unfolding j using t s i
        by (simp add: new_child_views old_child_views)
    qed
    have p3: "terminatesBitfield (?es' ! i)" if "lastEncoded ?es' i" "isBitfield (?es' ! i)" for i
    proof -
      have i: "i = ?n" using that(1) last by simp
      then have "isBitfield e" using that(2) by (simp add: new_child_views)
      then show ?thesis unfolding i using False by (simp add: new_child_terminates)
    qed
    show ?thesis unfolding bitfieldInv_def using p1 p2 p3 by blast
  qed
qed

lemma bitfieldInv_parseChildren:
  assumes "encodables s = []"
  shows "bitfieldInv (parseChildren s children)"
proof (induction children rule: rev_induct)
  case Nil
  show ?case using assms
    by (simp add: parseChildren_def bitfieldInv_def nextEncoded_def lastEncoded_def)
next
  case (snoc c children)
  then show ?case
    by (cases c) (simp_all add: parseChildren_snoc bitfieldInv_parseChild)
qed

lemmas parse_eval = parseChildren_def parseChildNode_def parseChild_def Let_def trackMetadata_def
  checkVariableArray_def checkDependsOn_def linkBitfields_def exampleField_def exampleStructure_def
  observer_defs mutator_defs getEndingBitCount_def





text \<open>
  Claim C4, as the code has it. Bitfield groups are formed over the encoded children: a
  child that is not encoded neither ends a group nor belongs to one. After the children
  of a structure are parsed, an encoded bitfield has \<open>terminatesBitfield\<close> set exactly
  when the next encoded child is not a bitfield, or when there is no next encoded child;
  and a bitfield that follows a bitfield (with no encoded child in between) starts at
  the ending bit count of that one. So in every maximal sequence of bitfields that are
  consecutive among the encoded children only the last one is the terminator.
\<close>

theorem parseChildren_bitfield_runs:
  assumes "encodables s = []" and "es = encodables (self (parseChildren s children))"
  shows "(\<forall>i j. nextEncoded es i j \<and> isBitfield (es ! i) \<longrightarrow>
             (terminatesBitfield (es ! i) \<longleftrightarrow> \<not> isBitfield (es ! j))
           \<and> (isBitfield (es ! j) \<longrightarrow> startingBitCount (es ! j) = getEndingBitCount (es ! i)))
       \<and> (\<forall>i. lastEncoded es i \<and> isBitfield (es ! i) \<longrightarrow> terminatesBitfield (es ! i))"
proof -
  have "bitfieldInv (parseChildren s children)"
    using assms(1) by (rule bitfieldInv_parseChildren)
  then show ?thesis
    unfolding bitfieldInv_def assms(2) by blast
qed

lemma example_bitfields:
  "encodables (self (parseChildren exampleStructure
      [Some ((exampleField ''a'')\<lparr>bitfieldBits := Some 3\<rparr>),
       Some ((exampleField ''b'')\<lparr>bitfieldBits := Some 5\<rparr>),
       Some ((exampleField ''c'')\<lparr>bitfieldBits := Some 8\<rparr>)]))
   = [(exampleField ''a'')\<lparr>bitfieldBits := Some 3\<rparr>,
      (exampleField ''b'')\<lparr>bitfieldBits := Some 5, startingBitCount := 3\<rparr>,
      (exampleField ''c'')\<lparr>bitfieldBits := Some 8, startingBitCount := 8, terminatesBitfield := True\<rparr>]"
  by (simp add: parse_eval)

theorem parseChildren_bitfield_runs_witness:
  "encodables exampleStructure = []
   \<and> nextEncoded (encodables (self (parseChildren exampleStructure
        [Some ((exampleField ''a'')\<lparr>bitfieldBits := Some 3\<rparr>),
         Some ((exampleField ''b'')\<lparr>bitfieldBits := Some 5\<rparr>),
         Some ((exampleField ''c'')\<lparr>bitfieldBits := Some 8\<rparr>)]))) 0 1
   \<and> lastEncoded (encodables (self (parseChildren exampleStructure
        [Some ((exampleField ''a'')\<lparr>bitfieldBits := Some 3\<rparr>),
         Some ((exampleField ''b'')\<lparr>bitfieldBits := Some 5\<rparr>),
         Some ((exampleField ''c'')\<lparr>bitfieldBits := Some 8\<rparr>)]))) 2
   \<and> map (\<lambda>e. (isBitfield e, startingBitCount e, terminatesBitfield e))
        (encodables (self (parseChildren exampleStructure
        [Some ((exampleField ''a'')\<lparr>bitfieldBits := Some 3\<rparr>),
         Some ((exampleField ''b'')\<lparr>bitfieldBits := Some 5\<rparr>),
         Some ((exampleField ''c'')\<lparr>bitfieldBits := Some 8\<rparr>)])))
      = [(True, 0, False), (True, 3, False), (True, 8, True)]"
proof -
  let ?es = "encodables (self (parseChildren exampleStructure
        [Some ((exampleField ''a'')\<lparr>bitfieldBits := Some 3\<rparr>),
         Some ((exampleField ''b'')\<lparr>bitfieldBits := Some 5\<rparr>),
         Some ((exampleField ''c'')\<lparr>bitfieldBits := Some 8\<rparr>)]))"
  have e: "encodables exampleStructure = []"
    by (simp add: exampleStructure_def)
  have n: "nextEncoded ?es 0 1" and l: "lastEncoded ?es 2"
    and b: "isBitfield (?es ! 0)" "isBitfield (?es ! 1)" "isBitfield (?es ! 2)"
    unfolding example_bitfields
    by (auto simp: exampleField_def nextEncoded_def lastEncoded_def isBitfield_def isNotEncoded_def)
  have m: "map (\<lambda>e. (isBitfield e, startingBitCount e)) ?es = [(True, 0), (True, 3), (True, 8)]"
    unfolding example_bitfields by (simp add: exampleField_def isBitfield_def)
  have t: "map terminatesBitfield (butlast ?es) = [False, False]"
    unfolding example_bitfields by (simp add: exampleField_def)
  have "terminatesBitfield (?es ! 2)"
    using parseChildren_bitfield_runs [of exampleStructure ?es, OF e refl] l b(3) by blast
  then have "terminatesBitfield (last ?es)"
    unfolding example_bitfields by simp
  then have "map (\<lambda>e. (isBitfield e, startingBitCount e, terminatesBitfield e)) ?es
      = [(True, 0, False), (True, 3, False), (True, 8, True)]"
    using m t unfolding example_bitfields by simp
  then show ?thesis using e n l by blast
qed

text \<open>
  Claim C4 as stated fails when a child that is not encoded stands between two
  bitfields: in the list of children the first bitfield is a maximal sequence of its
  own, followed by a child that is not a bitfield, and it is not marked as terminator.
\<close>

theorem parseChildren_bitfield_runs_counterexample:
  "isBitfield (encodables (self (parseChildren exampleStructure
      [Some ((exampleField ''a'')\<lparr>bitfieldBits := Some 3\<rparr>),
       Some ((exampleField ''x'')\<lparr>notEncoded := True\<rparr>),
       Some ((exampleField ''b'')\<lparr>bitfieldBits := Some 5\<rparr>)])) ! 0)
   \<and> \<not> isBitfield (encodables (self (parseChildren exampleStructure
      [Some ((exampleField ''a'')\<lparr>bitfieldBits := Some 3\<rparr>),
       Some ((exampleField ''x'')\<lparr>notEncoded := True\<rparr>),
       Some ((exampleField ''b'')\<lparr>bitfieldBits := Some 5\<rparr>)])) ! 1)
   \<and> \<not> terminatesBitfield (encodables (self (parseChildren exampleStructure
      [Some ((exampleField ''a'')\<lparr>bitfieldBits := Some 3\<rparr>),
       Some ((exampleField ''x'')\<lparr>notEncoded := True\<rparr>),
       Some ((exampleField ''b'')\<lparr>bitfieldBits := Some 5\<rparr>)])) ! 0)"
proof -
  have out: "encodables (self (parseChildren exampleStructure
      [Some ((exampleField ''a'')\<lparr>bitfieldBits := Some 3\<rparr>),
       Some ((exampleField ''x'')\<lparr>notEncoded := True\<rparr>),
       Some ((exampleField ''b'')\<lparr>bitfieldBits := Some 5\<rparr>)]))
   = [(exampleField ''a'')\<lparr>bitfieldBits := Some 3\<rparr>,
      (exampleField ''x'')\<lparr>notEncoded := True\<rparr>,
      (exampleField ''b'')\<lparr>bitfieldBits := Some 5, startingBitCount := 3, terminatesBitfield := True\<rparr>]"
    by (simp add: parse_eval)
  show ?thesis
    unfolding out by (simp add: isBitfield_def exampleField_def)
qed

lemma ignored_fst_checkVariableArray [simp]:
  "dependsOnIgnored sn (fst (checkVariableArray sn' es e)) = dependsOnIgnored sn e"
  "bitfieldDependsOn sn (fst (checkVariableArray sn' es e)) = bitfieldDependsOn sn e"
  by (simp_all add: dependsOnIgnored_def bitfieldDependsOn_def)










section \<open>Properties of the generated packet functions\<close>

lemma decodeNonDefaults_eq:
  "decodeNonDefaults M bigEndian sm es i bitcount =
     (i + length (nonDefaultPrefix es),
      decodeBitcount M bigEndian sm (nonDefaultPrefix es) bitcount,
      decodeLoop M bigEndian sm (nonDefaultPrefix es) bitcount
      @ (if defaultSuffix es = [] then [] else [LineSeparator]))"
  by (induction es arbitrary: i bitcount)
     (simp_all add: nonDefaultPrefix_def defaultSuffix_def Let_def)

lemma drop_nonDefaultPrefix: "drop (length (nonDefaultPrefix es)) es = defaultSuffix es"
  by (simp add: nonDefaultPrefix_def defaultSuffix_def dropWhile_eq_drop)

lemma prefix_append_suffix: "nonDefaultPrefix es @ defaultSuffix es = es"
  by (simp add: nonDefaultPrefix_def defaultSuffix_def)

lemma defaultSuffix_head: "defaultSuffix es \<noteq> [] \<Longrightarrow> isDefault (hd (defaultSuffix es))"
  unfolding defaultSuffix_def using hd_dropWhile [of "\<lambda>e. \<not> isDefault e" es] by simp

lemma nonDefaultPrefix_all: "e \<in> set (nonDefaultPrefix es) \<Longrightarrow> \<not> isDefault e"
  unfolding nonDefaultPrefix_def by (auto dest: set_takeWhileD)

lemma decodeFields_eq:
  "decodeFields M p sm =
     decodePrefix M sm p
     @ (if defaultSuffix (encodables p) = [] then [] else [LineSeparator])
     @ (if minEncodedLength p \<noteq> nonDefaultEncodedLength p \<and> nonDefaultPrefix (encodables p) \<noteq> []
        then shortPacketCheck else [])
     @ decodeSuffix M sm p"
  by (simp add: decodeFields_def Let_def decodeNonDefaults_eq drop_nonDefaultPrefix
        decodePrefix_def decodeSuffix_def shortPacketCheck_def)

lemma structureDecodeFunction_eq:
  "structureDecodeFunction M p =
     structureDecodeHead M p
     @ verifyPacketIdentifier p
     @ [Write ''\<newline>'',
        Write ''    // Verify the packet size\<newline>'',
        Write (''    numBytes = get'' @ protoName p @ ''PacketSize(pkt);\<newline>'')]
     @ verifyPacketSize p
     @ [Write ''\<newline>'',
        Write ''    // The raw data from the packet\<newline>'',
        Write (''    data = get'' @ protoName p @ ''PacketDataConst(pkt);\<newline>''),
        LineSeparator]
     @ (if defaults p then setDefaults M True p else [])
     @ [LineSeparator]
     @ decodeFields M p True
     @ returnOne"
  by (simp add: structureDecodeFunction_def structureDecodeHead_def verifyPacketIdentifier_def
        verifyPacketSize_def setDefaults_def returnOne_def)

lemma parameterDecodeFunction_eq:
  "parameterDecodeFunction M p =
     parameterDecodeHead M p
     @ verifyPacketIdentifier p
     @ [Write ''\<newline>'']
     @ verifyPacketSize p
     @ (if defaults p then Write ''\<newline>'' # setDefaults M False p else [])
     @ decodeFields M p False
     @ returnOne"
  by (simp add: parameterDecodeFunction_def parameterDecodeHead_def verifyPacketIdentifier_def
        verifyPacketSize_def setDefaults_def returnOne_def)

lemma emitView_fields:
  assumes "emitView p = emitView q"
  shows "prefix p = prefix q" "name p = name q" "protoName p = protoName q" "typeName p = typeName q"
    "comment p = comment q" "encodables p = encodables q" "bitfields p = bitfields q"
    "needsIterator p = needsIterator q" "defaults p = defaults q"
    "minEncodedLength p = minEncodedLength q" "nonDefaultEncodedLength p = nonDefaultEncodedLength q"
    "isBigEndian p = isBigEndian q"
  using assms by (simp_all add: emitView_def)

lemma emitView_small:
  assumes "emitView p = emitView q"
  shows "getNumberOfEncodes p = getNumberOfEncodes q"
    and "getNumberOfNonConstEncodes p = getNumberOfNonConstEncodes q"
    and "getPacketEncodeBriefComment p = getPacketEncodeBriefComment q"
    and "getPacketDecodeBriefComment p = getPacketDecodeBriefComment q"
    and "getPacketEncodeSignature M p = getPacketEncodeSignature M q"
    and "getPacketDecodeSignature M p = getPacketDecodeSignature M q"
    and "decodeFields M p sm = decodeFields M q sm"
    and "chooseInterfaces e p = chooseInterfaces e q"
  using emitView_fields [OF assms]
  by (simp_all add: getNumberOfEncodes_def getNumberOfNonConstEncodes_def
        getPacketEncodeBriefComment_def getPacketDecodeBriefComment_def
        getPacketEncodeSignature_def getPacketDecodeSignature_def
        getDataEncodeParameterList_def getDataDecodeParameterList_def
        decodeFields_def chooseInterfaces_def Let_def)

lemma emitView_functions:
  assumes "emitView p = emitView q"
  shows "structureEncodeFunction M p = structureEncodeFunction M q"
    and "structureDecodeFunction M p = structureDecodeFunction M q"
    and "structureEmptyFunctions M p = structureEmptyFunctions M q"
    and "parameterEncodeFunction M p = parameterEncodeFunction M q"
    and "parameterDecodeFunction M p = parameterDecodeFunction M q"
    and "parameterEmptyFunctions M p = parameterEmptyFunctions M q"
  using emitView_fields [OF assms] emitView_small [OF assms]
  by (simp_all add: structureEncodeFunction_def structureDecodeFunction_def
        structureEmptyFunctions_def parameterEncodeFunction_def parameterDecodeFunction_def
        parameterEmptyFunctions_def)

lemma emitView_create:
  assumes "emitView p = emitView q"
  shows "createStructurePacketFunctions_source M p = createStructurePacketFunctions_source M q"
    and "createStructurePacketFunctions_header M p = createStructurePacketFunctions_header M q"
    and "createPacketFunctions_source M p = createPacketFunctions_source M q"
    and "createPacketFunctions_header M p = createPacketFunctions_header M q"
    and "interfaceSource M choice p = interfaceSource M choice q"
    and "interfaceHeader M choice p = interfaceHeader M choice q"
  using emitView_fields [OF assms] emitView_small [OF assms] emitView_functions [OF assms]
  by (simp_all add: createStructurePacketFunctions_source_def createStructurePacketFunctions_header_def
        createPacketFunctions_source_def createPacketFunctions_header_def
        interfaceSource_def interfaceHeader_def)

text \<open>The steps of \<open>parse\<close>: what each appends to the two files.\<close>

lemma rejectArray_view [simp]:
  "emitView (fst (rejectArray p)) = emitView p"
  "header (fst (rejectArray p)) = header p"
  "source (fst (rejectArray p)) = source p"
  "support (fst (rejectArray p)) = support p"
  by (simp_all add: rejectArray_def emitView_def)

lemma rejectDependsOn_view [simp]:
  "emitView (fst (rejectDependsOn p)) = emitView p"
  "header (fst (rejectDependsOn p)) = header p"
  "source (fst (rejectDependsOn p)) = source p"
  "support (fst (rejectDependsOn p)) = support p"
  by (simp_all add: rejectDependsOn_def emitView_def)

lemma openFiles_view [simp]:
  "emitView (openFiles hx sx e p) = emitView p"
  "contents (header (openFiles hx sx e p)) = contents (header p)"
  "contents (source (openFiles hx sx e p)) = contents (source p)"
  "disk (header (openFiles hx sx e p)) = disk (header p)"
  "disk (source (openFiles hx sx e p)) = disk (source p)"
  "isAppending (source (openFiles hx sx e p)) = sx"
  "isAppending (header (openFiles hx sx e p)) = hx"
  "support (openFiles hx sx e p) = support p"
  by (simp_all add: openFiles_def emitView_def Let_def prepareToAppend_def setModuleName_def isAppending_def)

lemma writeHeaderTop_view [simp]:
  "emitView (writeHeaderTop M e p) = emitView p"
  "source (writeHeaderTop M e p) = source p"
  "disk (header (writeHeaderTop M e p)) = disk (header p)"
  "support (writeHeaderTop M e p) = support p"
  by (simp_all add: writeHeaderTop_def emitView_def fileWrite_def)

lemma writeHeaderTop_contents:
  "\<exists>top. contents (header (writeHeaderTop M e p)) = contents (header p) @ top"
  by (simp add: writeHeaderTop_def fileWrite_def)

lemma writeStructureDeclaration_view [simp]:
  "emitView (writeStructureDeclaration M s p) = emitView p"
  "source (writeStructureDeclaration M s p) = source p"
  "disk (header (writeStructureDeclaration M s p)) = disk (header p)"
  "support (writeStructureDeclaration M s p) = support p"
  "contents (header (writeStructureDeclaration M s p))
     = contents (header p) @ [Write (getStructureDeclaration M p s), LineSeparator]"
  by (simp_all add: writeStructureDeclaration_def emitView_def fileWrite_def)

lemma includeHelpers_view [simp]:
  "emitView (includeHelpers p) = emitView p"
  "header (includeHelpers p) = header p"
  "disk (source (includeHelpers p)) = disk (source p)"
  by (simp_all add: includeHelpers_def emitView_def fileWrite_def)

lemma includeHelpers_contents:
  "\<exists>incl. contents (source (includeHelpers p)) = contents (source p) @ incl"
  by (simp add: includeHelpers_def fileWrite_def)

lemma createSubStructureFunctions_view [simp]:
  "emitView (createSubStructureFunctions M p) = emitView p"
  "header (createSubStructureFunctions M p) = header p"
  "disk (source (createSubStructureFunctions M p)) = disk (source p)"
  by (simp_all add: createSubStructureFunctions_def emitView_def fileWrite_def)

lemma createSubStructureFunctions_contents:
  "\<exists>sub. contents (source (createSubStructureFunctions M p)) = contents (source p) @ sub"
  by (simp add: createSubStructureFunctions_def fileWrite_def)

lemma createStructurePacketFunctions_view [simp]:
  "emitView (createStructurePacketFunctions M p) = emitView p"
  "disk (header (createStructurePacketFunctions M p)) = disk (header p)"
  "disk (source (createStructurePacketFunctions M p)) = disk (source p)"
  "contents (header (createStructurePacketFunctions M p))
     = contents (header p) @ createStructurePacketFunctions_header M p"
  "contents (source (createStructurePacketFunctions M p))
     = contents (source p) @ createStructurePacketFunctions_source M p"
  by (simp_all add: createStructurePacketFunctions_def emitView_def fileWrite_def)

lemma createPacketFunctions_view [simp]:
  "emitView (createPacketFunctions M p) = emitView p"
  "disk (header (createPacketFunctions M p)) = disk (header p)"
  "disk (source (createPacketFunctions M p)) = disk (source p)"
  "contents (header (createPacketFunctions M p))
     = contents (header p) @ createPacketFunctions_header M p"
  "contents (source (createPacketFunctions M p))
     = contents (source p) @ createPacketFunctions_source M p"
  by (simp_all add: createPacketFunctions_def emitView_def fileWrite_def)

lemma createInterfaces_view [simp]:
  "emitView (createInterfaces M choice p) = emitView p"
  "disk (header (createInterfaces M choice p)) = disk (header p)"
  "disk (source (createInterfaces M choice p)) = disk (source p)"
  by (simp_all add: createInterfaces_def Let_def)

lemma createInterfaces_contents:
  "contents (source (createInterfaces M choice p)) = contents (source p) @ interfaceSource M choice p"
  "contents (header (createInterfaces M choice p)) = contents (header p) @ interfaceHeader M choice p"
  by (simp_all add: createInterfaces_def Let_def interfaceSource_def interfaceHeader_def
        emitView_create [of "createStructurePacketFunctions M p" p])

lemma createUtilityFunctions_view [simp]:
  "emitView (createUtilityFunctions e p) = emitView p"
  "disk (header (createUtilityFunctions e p)) = disk (header p)"
  "disk (source (createUtilityFunctions e p)) = disk (source p)"
  by (simp_all add: createUtilityFunctions_def emitView_def fileWrite_def Let_def)

lemma createUtilityFunctions_contents:
  "\<exists>util. contents (source (createUtilityFunctions e p)) = contents (source p) @ util"
  "\<exists>util. contents (header (createUtilityFunctions e p)) = contents (header p) @ util"
  by (simp_all add: createUtilityFunctions_def fileWrite_def Let_def)

lemma finishFiles_disk:
  "disk (source (finishFiles p)) = disk (source p) @ contents (source p)"
  "disk (header (finishFiles p)) = disk (header p) @ contents (header p) @ [LineSeparator]"
  by (simp_all add: finishFiles_def Let_def flush_def clearFile_def fileWrite_def)

text \<open>What \<open>parse\<close> leaves on disk.\<close>

lemma parsePacket_source:
  "\<exists>before after.
     disk (source (fst (parsePacket M hx sx e p)))
       = before @ interfaceSource M (chooseInterfaces e p) p @ after"
proof -
  let ?p3 = "writeHeaderTop M e (openFiles hx sx e (fst (rejectDependsOn (fst (rejectArray p)))))"
  let ?choice = "chooseInterfaces e ?p3"
  let ?p4 = "includeHelpers (writeStructureDeclaration M (fst ?choice) ?p3)"
  let ?p4' = "createSubStructureFunctions M ?p4"
  let ?p5 = "createInterfaces M ?choice ?p4'"
  have v3: "emitView ?p3 = emitView p" by simp
  have v4: "emitView ?p4' = emitView p" by simp
  have ch: "?choice = chooseInterfaces e p"
    by (rule emitView_small(8) [OF v3])
  have i0: "interfaceSource M ?choice ?p4' = interfaceSource M ?choice p"
    by (rule emitView_create(5) [OF v4])
  have i: "interfaceSource M ?choice ?p4' = interfaceSource M (chooseInterfaces e p) p"
    by (subst i0) (simp only: ch)
  obtain util where u: "contents (source (createUtilityFunctions e ?p5)) = contents (source ?p5) @ util"
    using createUtilityFunctions_contents(1) by blast
  have "disk (source (fst (parsePacket M hx sx e p)))
        = disk (source (createUtilityFunctions e ?p5)) @ contents (source (createUtilityFunctions e ?p5))"
    by (simp add: parsePacket_def Let_def finishFiles_disk)
  also have "\<dots> = (disk (source (createUtilityFunctions e ?p5)) @ contents (source ?p4'))
                   @ interfaceSource M (chooseInterfaces e p) p @ util"
    by (simp add: u createInterfaces_contents i)
  finally show ?thesis by blast
qed

lemma parsePacket_header:
  "\<exists>before after.
     disk (header (fst (parsePacket M hx sx e p)))
       = before @ interfaceHeader M (chooseInterfaces e p) p @ after"
proof -
  let ?p3 = "writeHeaderTop M e (openFiles hx sx e (fst (rejectDependsOn (fst (rejectArray p)))))"
  let ?choice = "chooseInterfaces e ?p3"
  let ?p4 = "includeHelpers (writeStructureDeclaration M (fst ?choice) ?p3)"
  let ?p4' = "createSubStructureFunctions M ?p4"
  let ?p5 = "createInterfaces M ?choice ?p4'"
  have v3: "emitView ?p3 = emitView p" by simp
  have v4: "emitView ?p4' = emitView p" by simp
  have ch: "?choice = chooseInterfaces e p"
    by (rule emitView_small(8) [OF v3])
  have i0: "interfaceHeader M ?choice ?p4' = interfaceHeader M ?choice p"
    by (rule emitView_create(6) [OF v4])
  have i: "interfaceHeader M ?choice ?p4' = interfaceHeader M (chooseInterfaces e p) p"
    by (subst i0) (simp only: ch)
  obtain util where u: "contents (header (createUtilityFunctions e ?p5)) = contents (header ?p5) @ util"
    using createUtilityFunctions_contents(2) by blast
  have "disk (header (fst (parsePacket M hx sx e p)))
        = disk (header (createUtilityFunctions e ?p5)) @ contents (header (createUtilityFunctions e ?p5))
          @ [LineSeparator]"
    by (simp add: parsePacket_def Let_def finishFiles_disk)
  also have "\<dots> = (disk (header (createUtilityFunctions e ?p5)) @ contents (header ?p4'))
                   @ interfaceHeader M (chooseInterfaces e p) p @ (util @ [LineSeparator])"
    by (simp add: u createInterfaces_contents i)
  finally show ?thesis by blast
qed

lemma source_with_encodes:
  assumes "getNumberOfEncodes p > 0"
  shows "createStructurePacketFunctions_source M p =
           structureEncodeFunction M p
           @ structureDecodeChecks M p
           @ (if defaults p then setDefaults M True p else [])
           @ [LineSeparator]
           @ decodeFields M p True
           @ returnOne"
    and "createPacketFunctions_source M p =
           parameterEncodeFunction M p
           @ parameterDecodeChecks M p
           @ (if defaults p then Write ''\<newline>'' # setDefaults M False p else [])
           @ decodeFields M p False
           @ returnOne"
  using assms
  by (simp_all add: createStructurePacketFunctions_source_def createPacketFunctions_source_def
        structureDecodeFunction_eq parameterDecodeFunction_eq
        structureDecodeChecks_def parameterDecodeChecks_def)

lemma source_without_encodes:
  assumes "getNumberOfEncodes p = 0"
  shows "\<exists>c1 c2. createStructurePacketFunctions_source M p =
           c1 @ [Write (''void encode'' @ prefix p @ name p @ ''PacketStructure(void* pkt)\<newline>''),
                 Write ''{\<newline>'']
           @ emptyEncodeBody p @ [Write ''}\<newline>'']
           @ c2 @ [Write (''int decode'' @ prefix p @ name p @ ''PacketStructure(const void* pkt)\<newline>''),
                   Write ''{\<newline>'']
           @ emptyDecodeBody p @ [Write ''}\<newline>'']"
    and "\<exists>c1 c2. createPacketFunctions_source M p =
           c1 @ [Write (getPacketEncodeSignature M p @ ''\<newline>''), Write ''{\<newline>'']
           @ emptyEncodeBody p @ [Write ''}\<newline>'']
           @ c2 @ [Write (getPacketDecodeSignature M p @ ''\<newline>''), Write ''{\<newline>'']
           @ emptyDecodeBody p @ [Write ''}\<newline>'']"
proof -
  let ?c1 = "[LineSeparator,
      Write ''/*!\<newline>'',
      Write ('' * '' @ bs @ ''brief '' @ getPacketEncodeBriefComment p @ ''\<newline>''),
      Write '' *\<newline>'',
      Write (outputLongComment M '' *'' (comment p) @ ''\<newline>''),
      Write ('' * '' @ bs @ ''param pkt points to the packet which will be created by this function\<newline>''),
      Write '' */\<newline>'']"
  let ?c2 = "[Write ''\<newline>'',
      Write ''/*!\<newline>'',
      Write ('' * '' @ bs @ ''brief '' @ getPacketDecodeBriefComment p @ ''\<newline>''),
      Write '' *\<newline>'',
      Write (outputLongComment M '' *'' (comment p) @ ''\<newline>''),
      Write ('' * '' @ bs @ ''param pkt points to the packet being decoded by this function\<newline>''),
      Write ('' * '' @ bs @ ''return 0 is returned if the packet ID is wrong, else 1\<newline>''),
      Write '' */\<newline>'']"
  have "createStructurePacketFunctions_source M p =
           ?c1 @ [Write (''void encode'' @ prefix p @ name p @ ''PacketStructure(void* pkt)\<newline>''),
                 Write ''{\<newline>'']
           @ emptyEncodeBody p @ [Write ''}\<newline>'']
           @ ?c2 @ [Write (''int decode'' @ prefix p @ name p @ ''PacketStructure(const void* pkt)\<newline>''),
                   Write ''{\<newline>'']
           @ emptyDecodeBody p @ [Write ''}\<newline>'']"
    using assms
    by (simp add: createStructurePacketFunctions_source_def structureEmptyFunctions_def
          emptyEncodeBody_def emptyDecodeBody_def verifyPacketIdentifier_def)
  then show "\<exists>c1 c2. createStructurePacketFunctions_source M p =
           c1 @ [Write (''void encode'' @ prefix p @ name p @ ''PacketStructure(void* pkt)\<newline>''),
                 Write ''{\<newline>'']
           @ emptyEncodeBody p @ [Write ''}\<newline>'']
           @ c2 @ [Write (''int decode'' @ prefix p @ name p @ ''PacketStructure(const void* pkt)\<newline>''),
                   Write ''{\<newline>'']
           @ emptyDecodeBody p @ [Write ''}\<newline>'']"
    by blast
  have "createPacketFunctions_source M p =
           ?c1 @ [Write (getPacketEncodeSignature M p @ ''\<newline>''), Write ''{\<newline>'']
           @ emptyEncodeBody p @ [Write ''}\<newline>'']
           @ ?c2 @ [Write (getPacketDecodeSignature M p @ ''\<newline>''), Write ''{\<newline>'']
           @ emptyDecodeBody p @ [Write ''}\<newline>'']"
    using assms
    by (simp add: createPacketFunctions_source_def parameterEmptyFunctions_def
          emptyEncodeBody_def emptyDecodeBody_def verifyPacketIdentifier_def)
  then show "\<exists>c1 c2. createPacketFunctions_source M p =
           c1 @ [Write (getPacketEncodeSignature M p @ ''\<newline>''), Write ''{\<newline>'']
           @ emptyEncodeBody p @ [Write ''}\<newline>'']
           @ c2 @ [Write (getPacketDecodeSignature M p @ ''\<newline>''), Write ''{\<newline>'']
           @ emptyDecodeBody p @ [Write ''}\<newline>'']"
    by blast
qed

lemma getNumberOfEncodes_Nil: "encodables p = [] \<Longrightarrow> getNumberOfEncodes p = 0"
  by (simp add: getNumberOfEncodes_def)

lemma chooseInterfaces_default:
  assumes "\<not> containsCI (attribute e ''structureInterface'') ''true''"
    and "\<not> containsCI (attribute e ''parameterInterface'') ''true''"
  shows "chooseInterfaces e p = (if length (encodables p) \<le> 1 then (False, True) else (True, False))"
  using assms by (simp add: chooseInterfaces_def Let_def)

lemma chooseInterfaces_empty: "encodables p = [] \<Longrightarrow> chooseInterfaces e p = (False, True)"
  by (simp add: chooseInterfaces_def Let_def)

lemma chooseInterfaces_both:
  assumes "containsCI (attribute e ''structureInterface'') ''true''"
    and "containsCI (attribute e ''parameterInterface'') ''true''"
    and "encodables p \<noteq> []"
  shows "chooseInterfaces e p = (True, True)"
  using assms by (simp add: chooseInterfaces_def Let_def)

lemma structure_pair_present:
  "(\<exists>rest. Write (''void encode'' @ prefix p @ name p @ ''PacketStructure(void* pkt'' @ rest)
              \<in> set (createStructurePacketFunctions_source M p))
   \<and> (\<exists>rest. Write (''int decode'' @ prefix p @ name p @ ''PacketStructure(const void* pkt'' @ rest)
              \<in> set (createStructurePacketFunctions_source M p))"
proof (cases "getNumberOfEncodes p > 0")
  case True
  have e1: "Write (''void encode'' @ prefix p @ name p @ ''PacketStructure(void* pkt''
                   @ (if getNumberOfNonConstEncodes p > 0 then '', const '' @ typeName p @ ''* user)\<newline>''
                      else '')\<newline>''))
          \<in> set (structureEncodeFunction M p)"
    by (simp add: structureEncodeFunction_def)
  have d1: "Write (''int decode'' @ prefix p @ name p @ ''PacketStructure(const void* pkt''
                   @ ('', '' @ typeName p @ ''* user)\<newline>''))
          \<in> set (structureDecodeFunction M p)"
    by (simp add: structureDecodeFunction_def)
  from e1 d1 True show ?thesis
    unfolding createStructurePacketFunctions_source_def
    by (simp only: if_True set_append Un_iff) blast
next
  case False
  have e1: "Write (''void encode'' @ prefix p @ name p @ ''PacketStructure(void* pkt'' @ '')\<newline>'')
          \<in> set (structureEmptyFunctions M p)"
    by (simp add: structureEmptyFunctions_def)
  have d1: "Write (''int decode'' @ prefix p @ name p @ ''PacketStructure(const void* pkt'' @ '')\<newline>'')
          \<in> set (structureEmptyFunctions M p)"
    by (simp add: structureEmptyFunctions_def)
  from e1 d1 False show ?thesis
    unfolding createStructurePacketFunctions_source_def
    by (simp only: if_False) blast
qed

lemma parameter_pair_present:
  "Write (getPacketEncodeSignature M p @ ''\<newline>'') \<in> set (createPacketFunctions_source M p)
   \<and> Write (getPacketDecodeSignature M p @ ''\<newline>'') \<in> set (createPacketFunctions_source M p)"
  by (simp add: createPacketFunctions_source_def parameterEncodeFunction_def
        parameterDecodeFunction_def parameterEmptyFunctions_def)

text \<open>
  Claim C1. For a packet with at least one encoded child and with the flag \<open>defaults\<close>
  set, the decode function of either interface comes right after the encode function and
  is made of: the head with the two checks, the assignments of the default values, the
  decode strings of the children before the first child with a default (in the order of
  the children), the check \<open>numBytes < byteindex\<close> with \<open>return 0\<close> exactly when
  \<open>minEncodedLength\<close> differs from \<open>nonDefaultEncodedLength\<close> and there is at least one
  child before the first default, the decode strings of the remaining children, and
  \<open>return 1\<close>.
\<close>

theorem decode_defaults_then_fields:
  assumes "getNumberOfEncodes p > 0" and "defaults p"
  shows "createStructurePacketFunctions_source M p =
           structureEncodeFunction M p
           @ structureDecodeChecks M p
           @ setDefaults M True p
           @ [LineSeparator]
           @ decodePrefix M True p
           @ (if defaultSuffix (encodables p) = [] then [] else [LineSeparator])
           @ (if minEncodedLength p \<noteq> nonDefaultEncodedLength p \<and> nonDefaultPrefix (encodables p) \<noteq> []
              then shortPacketCheck else [])
           @ decodeSuffix M True p
           @ returnOne
       \<and> createPacketFunctions_source M p =
           parameterEncodeFunction M p
           @ parameterDecodeChecks M p
           @ [Write ''\<newline>'']
           @ setDefaults M False p
           @ decodePrefix M False p
           @ (if defaultSuffix (encodables p) = [] then [] else [LineSeparator])
           @ (if minEncodedLength p \<noteq> nonDefaultEncodedLength p \<and> nonDefaultPrefix (encodables p) \<noteq> []
              then shortPacketCheck else [])
           @ decodeSuffix M False p
           @ returnOne
       \<and> nonDefaultPrefix (encodables p) @ defaultSuffix (encodables p) = encodables p
       \<and> list_all (\<lambda>e. \<not> isDefault e) (nonDefaultPrefix (encodables p))
       \<and> list_all isDefault (take 1 (defaultSuffix (encodables p)))"
proof -
  have s: "createStructurePacketFunctions_source M p =
           structureEncodeFunction M p
           @ structureDecodeChecks M p
           @ setDefaults M True p
           @ [LineSeparator]
           @ decodePrefix M True p
           @ (if defaultSuffix (encodables p) = [] then [] else [LineSeparator])
           @ (if minEncodedLength p \<noteq> nonDefaultEncodedLength p \<and> nonDefaultPrefix (encodables p) \<noteq> []
              then shortPacketCheck else [])
           @ decodeSuffix M True p
           @ returnOne"
    unfolding source_with_encodes(1) [OF assms(1)] decodeFields_eq using assms(2) by simp
  have q: "createPacketFunctions_source M p =
           parameterEncodeFunction M p
           @ parameterDecodeChecks M p
           @ [Write ''\<newline>'']
           @ setDefaults M False p
           @ decodePrefix M False p
           @ (if defaultSuffix (encodables p) = [] then [] else [LineSeparator])
           @ (if minEncodedLength p \<noteq> nonDefaultEncodedLength p \<and> nonDefaultPrefix (encodables p) \<noteq> []
              then shortPacketCheck else [])
           @ decodeSuffix M False p
           @ returnOne"
    unfolding source_with_encodes(2) [OF assms(1)] decodeFields_eq using assms(2) by simp
  have a: "list_all (\<lambda>e. \<not> isDefault e) (nonDefaultPrefix (encodables p))"
    unfolding list_all_iff using nonDefaultPrefix_all by blast
  have b: "list_all isDefault (take 1 (defaultSuffix (encodables p)))"
  proof (cases "defaultSuffix (encodables p)")
    case Nil
    then show ?thesis by simp
  next
    case (Cons d ds)
    then have "isDefault d"
      using defaultSuffix_head [of "encodables p"] by simp
    with Cons show ?thesis by simp
  qed
  from s q prefix_append_suffix a b show ?thesis by blast
qed

theorem decode_defaults_then_fields_witness:
  "getNumberOfEncodes ((examplePacket ''Blob''
        [exampleField ''count'',
         (exampleField ''payload'')\<lparr>array := ''16'', variableArray := ''count''\<rparr>,
         (exampleField ''c'')\<lparr>defaultValue := ''0''\<rparr>])
      \<lparr>minEncodedLength := ''1'', nonDefaultEncodedLength := ''1+16''\<rparr>) > 0
   \<and> defaults ((examplePacket ''Blob''
        [exampleField ''count'',
         (exampleField ''payload'')\<lparr>array := ''16'', variableArray := ''count''\<rparr>,
         (exampleField ''c'')\<lparr>defaultValue := ''0''\<rparr>])
      \<lparr>minEncodedLength := ''1'', nonDefaultEncodedLength := ''1+16''\<rparr>)
   \<and> createPacketFunctions_source exampleMethods ((examplePacket ''Blob''
        [exampleField ''count'',
         (exampleField ''payload'')\<lparr>array := ''16'', variableArray := ''count''\<rparr>,
         (exampleField ''c'')\<lparr>defaultValue := ''0''\<rparr>])
      \<lparr>minEncodedLength := ''1'', nonDefaultEncodedLength := ''1+16''\<rparr>)
     = parameterEncodeFunction exampleMethods ((examplePacket ''Blob''
        [exampleField ''count'',
         (exampleField ''payload'')\<lparr>array := ''16'', variableArray := ''count''\<rparr>,
         (exampleField ''c'')\<lparr>defaultValue := ''0''\<rparr>])
      \<lparr>minEncodedLength := ''1'', nonDefaultEncodedLength := ''1+16''\<rparr>)
       @ parameterDecodeChecks exampleMethods ((examplePacket ''Blob''
        [exampleField ''count'',
         (exampleField ''payload'')\<lparr>array := ''16'', variableArray := ''count''\<rparr>,
         (exampleField ''c'')\<lparr>defaultValue := ''0''\<rparr>])
      \<lparr>minEncodedLength := ''1'', nonDefaultEncodedLength := ''1+16''\<rparr>)
       @ [Write ''\<newline>'',
          Write ''    // this packet has default fields, make sure they are set\<newline>'',
          Write [],
          Write [],
          Write ''    c = 0;\<newline>'',
          LineSeparator,
          Write ''    decode count;\<newline>'',
          LineSeparator,
          Write ''    decode payload;\<newline>'',
          LineSeparator,
          LineSeparator,
          Write ''    // Used variable length arrays or dependent fields, check actual length\<newline>'',
          Write ''    if(numBytes < byteindex)\<newline>'',
          Write ''        return 0;\<newline>'',
          LineSeparator,
          Write ''    decode c;\<newline>'',
          LineSeparator,
          Write ''    return 1;\<newline>'',
          Write ''}\<newline>'']"
proof -
  let ?P = "(examplePacket ''Blob''
        [exampleField ''count'',
         (exampleField ''payload'')\<lparr>array := ''16'', variableArray := ''count''\<rparr>,
         (exampleField ''c'')\<lparr>defaultValue := ''0''\<rparr>])
      \<lparr>minEncodedLength := ''1'', nonDefaultEncodedLength := ''1+16''\<rparr>"
  have n: "getNumberOfEncodes ?P > 0"
    by (simp add: getNumberOfEncodes_def examplePacket_def exampleField_def isNotEncoded_def)
  have d: "defaults ?P"
    by (simp add: examplePacket_def exampleField_def isDefault_def)
  have es: "encodables ?P = [exampleField ''count'',
         (exampleField ''payload'')\<lparr>array := ''16'', variableArray := ''count''\<rparr>,
         (exampleField ''c'')\<lparr>defaultValue := ''0''\<rparr>]"
    by (simp add: examplePacket_def)
  have pre: "nonDefaultPrefix (encodables ?P) = [exampleField ''count'',
         (exampleField ''payload'')\<lparr>array := ''16'', variableArray := ''count''\<rparr>]"
    unfolding es by (simp add: nonDefaultPrefix_def exampleField_def isDefault_def)
  have suf: "defaultSuffix (encodables ?P) = [(exampleField ''c'')\<lparr>defaultValue := ''0''\<rparr>]"
    unfolding es by (simp add: defaultSuffix_def exampleField_def isDefault_def)
  have len: "minEncodedLength ?P \<noteq> nonDefaultEncodedLength ?P"
    by simp
  have sd: "setDefaults exampleMethods False ?P =
      [Write ''    // this packet has default fields, make sure they are set\<newline>'',
       Write [], Write [], Write ''    c = 0;\<newline>'']"
    unfolding setDefaults_def es by (simp add: exampleMethods_def exampleField_def isDefault_def)
  have dp: "decodePrefix exampleMethods False ?P =
      [LineSeparator, Write ''    decode count;\<newline>'',
       LineSeparator, Write ''    decode payload;\<newline>'']"
    unfolding decodePrefix_def pre by (simp add: exampleMethods_def exampleField_def)
  have ds: "decodeSuffix exampleMethods False ?P = [LineSeparator, Write ''    decode c;\<newline>'']"
    unfolding decodeSuffix_def suf by (simp add: exampleMethods_def exampleField_def)
  have "createPacketFunctions_source exampleMethods ?P =
           parameterEncodeFunction exampleMethods ?P
           @ parameterDecodeChecks exampleMethods ?P
           @ [Write ''\<newline>'']
           @ setDefaults exampleMethods False ?P
           @ decodePrefix exampleMethods False ?P
           @ (if defaultSuffix (encodables ?P) = [] then [] else [LineSeparator])
           @ (if minEncodedLength ?P \<noteq> nonDefaultEncodedLength ?P \<and> nonDefaultPrefix (encodables ?P) \<noteq> []
              then shortPacketCheck else [])
           @ decodeSuffix exampleMethods False ?P
           @ returnOne"
    using decode_defaults_then_fields [OF n d, of exampleMethods] by blast
  then have "createPacketFunctions_source exampleMethods ?P =
           parameterEncodeFunction exampleMethods ?P
           @ parameterDecodeChecks exampleMethods ?P
           @ [Write ''\<newline>'',
          Write ''    // this packet has default fields, make sure they are set\<newline>'',
          Write [],
          Write [],
          Write ''    c = 0;\<newline>'',
          LineSeparator,
          Write ''    decode count;\<newline>'',
          LineSeparator,
          Write ''    decode payload;\<newline>'',
          LineSeparator,
          LineSeparator,
          Write ''    // Used variable length arrays or dependent fields, check actual length\<newline>'',
          Write ''    if(numBytes < byteindex)\<newline>'',
          Write ''        return 0;\<newline>'',
          LineSeparator,
          Write ''    decode c;\<newline>'',
          LineSeparator,
          Write ''    return 1;\<newline>'',
          Write ''}\<newline>'']"
    unfolding sd dp ds pre suf using len by (simp add: shortPacketCheck_def returnOne_def)
  with n d show ?thesis by blast
qed

text \<open>
  Claim C2, as the code has it. With at least one encoded child, the decode function of
  either interface verifies the packet identifier, then the packet size against the
  minimum data length (each with \<open>return 0\<close>), and only then sets defaults, decodes the
  fields and returns 1. Without an encoded child the decode function is the verification
  of the packet identifier followed by \<open>else return 1\<close>: the size is not verified.
\<close>

theorem decode_checks_before_fields:
  "(getNumberOfEncodes p > 0 \<longrightarrow>
       createStructurePacketFunctions_source M p =
           structureEncodeFunction M p
           @ structureDecodeHead M p
           @ verifyPacketIdentifier p
           @ [Write ''\<newline>'',
              Write ''    // Verify the packet size\<newline>'',
              Write (''    numBytes = get'' @ protoName p @ ''PacketSize(pkt);\<newline>'')]
           @ verifyPacketSize p
           @ [Write ''\<newline>'',
              Write ''    // The raw data from the packet\<newline>'',
              Write (''    data = get'' @ protoName p @ ''PacketDataConst(pkt);\<newline>''),
              LineSeparator]
           @ (if defaults p then setDefaults M True p else [])
           @ [LineSeparator]
           @ decodeFields M p True
           @ returnOne
     \<and> createPacketFunctions_source M p =
           parameterEncodeFunction M p
           @ parameterDecodeHead M p
           @ verifyPacketIdentifier p
           @ [Write ''\<newline>'']
           @ verifyPacketSize p
           @ (if defaults p then Write ''\<newline>'' # setDefaults M False p else [])
           @ decodeFields M p False
           @ returnOne)
   \<and> (getNumberOfEncodes p = 0 \<longrightarrow>
       (\<exists>c1 c2. createStructurePacketFunctions_source M p =
           c1 @ [Write (''void encode'' @ prefix p @ name p @ ''PacketStructure(void* pkt)\<newline>''),
                 Write ''{\<newline>'']
           @ emptyEncodeBody p @ [Write ''}\<newline>'']
           @ c2 @ [Write (''int decode'' @ prefix p @ name p @ ''PacketStructure(const void* pkt)\<newline>''),
                   Write ''{\<newline>'']
           @ verifyPacketIdentifier p
           @ [Write ''    else\<newline>'', Write ''        return 1;\<newline>'', Write ''}\<newline>''])
     \<and> (\<exists>c1 c2. createPacketFunctions_source M p =
           c1 @ [Write (getPacketEncodeSignature M p @ ''\<newline>''), Write ''{\<newline>'']
           @ emptyEncodeBody p @ [Write ''}\<newline>'']
           @ c2 @ [Write (getPacketDecodeSignature M p @ ''\<newline>''), Write ''{\<newline>'']
           @ verifyPacketIdentifier p
           @ [Write ''    else\<newline>'', Write ''        return 1;\<newline>'', Write ''}\<newline>'']))"
proof (intro conjI impI)
  assume n: "getNumberOfEncodes p > 0"
  show "createStructurePacketFunctions_source M p =
           structureEncodeFunction M p
           @ structureDecodeHead M p
           @ verifyPacketIdentifier p
           @ [Write ''\<newline>'',
              Write ''    // Verify the packet size\<newline>'',
              Write (''    numBytes = get'' @ protoName p @ ''PacketSize(pkt);\<newline>'')]
           @ verifyPacketSize p
           @ [Write ''\<newline>'',
              Write ''    // The raw data from the packet\<newline>'',
              Write (''    data = get'' @ protoName p @ ''PacketDataConst(pkt);\<newline>''),
              LineSeparator]
           @ (if defaults p then setDefaults M True p else [])
           @ [LineSeparator]
           @ decodeFields M p True
           @ returnOne"
    unfolding source_with_encodes(1) [OF n] structureDecodeChecks_def by simp
  show "createPacketFunctions_source M p =
           parameterEncodeFunction M p
           @ parameterDecodeHead M p
           @ verifyPacketIdentifier p
           @ [Write ''\<newline>'']
           @ verifyPacketSize p
           @ (if defaults p then Write ''\<newline>'' # setDefaults M False p else [])
           @ decodeFields M p False
           @ returnOne"
    unfolding source_with_encodes(2) [OF n] parameterDecodeChecks_def by simp
next
  assume z: "getNumberOfEncodes p = 0"
  show "\<exists>c1 c2. createStructurePacketFunctions_source M p =
           c1 @ [Write (''void encode'' @ prefix p @ name p @ ''PacketStructure(void* pkt)\<newline>''),
                 Write ''{\<newline>'']
           @ emptyEncodeBody p @ [Write ''}\<newline>'']
           @ c2 @ [Write (''int decode'' @ prefix p @ name p @ ''PacketStructure(const void* pkt)\<newline>''),
                   Write ''{\<newline>'']
           @ verifyPacketIdentifier p
           @ [Write ''    else\<newline>'', Write ''        return 1;\<newline>'', Write ''}\<newline>'']"
    using source_without_encodes(1) [OF z, of M] unfolding emptyDecodeBody_def by simp
  show "\<exists>c1 c2. createPacketFunctions_source M p =
           c1 @ [Write (getPacketEncodeSignature M p @ ''\<newline>''), Write ''{\<newline>'']
           @ emptyEncodeBody p @ [Write ''}\<newline>'']
           @ c2 @ [Write (getPacketDecodeSignature M p @ ''\<newline>''), Write ''{\<newline>'']
           @ verifyPacketIdentifier p
           @ [Write ''    else\<newline>'', Write ''        return 1;\<newline>'', Write ''}\<newline>'']"
    using source_without_encodes(2) [OF z, of M] unfolding emptyDecodeBody_def by simp
qed

theorem decode_checks_before_fields_witness:
  "getNumberOfEncodes (examplePacket ''Echo'' [exampleField ''n'']) > 0
   \<and> createPacketFunctions_source exampleMethods (examplePacket ''Echo'' [exampleField ''n'']) =
       parameterEncodeFunction exampleMethods (examplePacket ''Echo'' [exampleField ''n''])
       @ parameterDecodeHead exampleMethods (examplePacket ''Echo'' [exampleField ''n''])
       @ [Write ''    if(getDemoPacketID(pkt) != getEchoPacketID())\<newline>'',
          Write ''        return 0;\<newline>'',
          Write ''\<newline>'',
          Write ''    if(numBytes < getEchoMinDataLength())\<newline>'',
          Write ''        return 0;\<newline>'',
          LineSeparator,
          Write ''    decode n;\<newline>'',
          LineSeparator,
          Write ''    return 1;\<newline>'',
          Write ''}\<newline>'']
   \<and> getNumberOfEncodes (examplePacket ''Ping'' []) = 0
   \<and> (\<exists>c1 c2. createPacketFunctions_source exampleMethods (examplePacket ''Ping'' []) =
         c1 @ [Write ''void encodePingPacket(void* pkt)\<newline>'', Write ''{\<newline>'',
               Write ''    // create a zero length packet\<newline>'',
               Write ''    finishDemoPacket(pkt, 0, getPingPacketID());\<newline>'',
               Write ''}\<newline>'']
         @ c2 @ [Write ''int decodePingPacket(const void* pkt)\<newline>'', Write ''{\<newline>'',
               Write ''    if(getDemoPacketID(pkt) != getPingPacketID())\<newline>'',
               Write ''        return 0;\<newline>'',
               Write ''    else\<newline>'',
               Write ''        return 1;\<newline>'',
               Write ''}\<newline>''])"
proof -
  let ?E = "examplePacket ''Echo'' [exampleField ''n'']"
  let ?P = "examplePacket ''Ping'' []"
  have n: "getNumberOfEncodes ?E > 0"
    by (simp add: getNumberOfEncodes_def examplePacket_def exampleField_def isNotEncoded_def)
  have z: "getNumberOfEncodes ?P = 0"
    by (simp add: getNumberOfEncodes_def examplePacket_def)
  have fields: "decodeFields exampleMethods ?E False = [LineSeparator, Write ''    decode n;\<newline>'']"
    by (simp add: decodeFields_def Let_def examplePacket_def exampleField_def exampleMethods_def
          isDefault_def)
  have nd: "\<not> defaults ?E"
    by (simp add: examplePacket_def exampleField_def isDefault_def)
  have "createPacketFunctions_source exampleMethods ?E =
           parameterEncodeFunction exampleMethods ?E
           @ parameterDecodeHead exampleMethods ?E
           @ verifyPacketIdentifier ?E
           @ [Write ''\<newline>'']
           @ verifyPacketSize ?E
           @ (if defaults ?E then Write ''\<newline>'' # setDefaults exampleMethods False ?E else [])
           @ decodeFields exampleMethods ?E False
           @ returnOne"
    using decode_checks_before_fields [of ?E exampleMethods] n by blast
  then have e: "createPacketFunctions_source exampleMethods ?E =
       parameterEncodeFunction exampleMethods ?E
       @ parameterDecodeHead exampleMethods ?E
       @ [Write ''    if(getDemoPacketID(pkt) != getEchoPacketID())\<newline>'',
          Write ''        return 0;\<newline>'',
          Write ''\<newline>'',
          Write ''    if(numBytes < getEchoMinDataLength())\<newline>'',
          Write ''        return 0;\<newline>'',
          LineSeparator,
          Write ''    decode n;\<newline>'',
          LineSeparator,
          Write ''    return 1;\<newline>'',
          Write ''}\<newline>'']"
    unfolding fields using nd
    by (simp add: verifyPacketIdentifier_def verifyPacketSize_def returnOne_def examplePacket_def)
  have "\<exists>c1 c2. createPacketFunctions_source exampleMethods ?P =
           c1 @ [Write (getPacketEncodeSignature exampleMethods ?P @ ''\<newline>''), Write ''{\<newline>'']
           @ emptyEncodeBody ?P @ [Write ''}\<newline>'']
           @ c2 @ [Write (getPacketDecodeSignature exampleMethods ?P @ ''\<newline>''), Write ''{\<newline>'']
           @ verifyPacketIdentifier ?P
           @ [Write ''    else\<newline>'', Write ''        return 1;\<newline>'', Write ''}\<newline>'']"
    using decode_checks_before_fields [of ?P exampleMethods] z by blast
  then have p: "\<exists>c1 c2. createPacketFunctions_source exampleMethods ?P =
         c1 @ [Write ''void encodePingPacket(void* pkt)\<newline>'', Write ''{\<newline>'',
               Write ''    // create a zero length packet\<newline>'',
               Write ''    finishDemoPacket(pkt, 0, getPingPacketID());\<newline>'',
               Write ''}\<newline>'']
         @ c2 @ [Write ''int decodePingPacket(const void* pkt)\<newline>'', Write ''{\<newline>'',
               Write ''    if(getDemoPacketID(pkt) != getPingPacketID())\<newline>'',
               Write ''        return 0;\<newline>'',
               Write ''    else\<newline>'',
               Write ''        return 1;\<newline>'',
               Write ''}\<newline>'']"
    by (simp add: getPacketEncodeSignature_def getPacketDecodeSignature_def emptyEncodeBody_def
          verifyPacketIdentifier_def examplePacket_def getNumberOfNonConstEncodes_def)
  from n e z p show ?thesis by blast
qed

text \<open>
  Claim C2 as stated fails for a packet without children: its decode function holds no
  comparison of \<open>numBytes\<close> with the minimum data length, the whole body is the
  verification of the packet identifier.
\<close>

theorem decode_checks_before_fields_counterexample:
  "chooseInterfaces [] (examplePacket ''Ping'' [])
     = (False, True)
   \<and> drop 12 (createPacketFunctions_source exampleMethods
        (examplePacket ''Ping'' []))
     = [Write ''\<newline>'',
        Write ''/*!\<newline>'',
        Write ('' * '' @ bs @ ''brief Decode the Ping packet\<newline>''),
        Write '' *\<newline>'',
        Write '' * \<newline>'',
        Write ('' * '' @ bs @ ''param pkt points to the packet being decoded by this function\<newline>''),
        Write ('' * '' @ bs @ ''return 0 is returned if the packet ID is wrong, else 1\<newline>''),
        Write '' */\<newline>'',
        Write ''int decodePingPacket(const void* pkt)\<newline>'',
        Write ''{\<newline>'',
        Write ''    if(getDemoPacketID(pkt) != getPingPacketID())\<newline>'',
        Write ''        return 0;\<newline>'',
        Write ''    else\<newline>'',
        Write ''        return 1;\<newline>'',
        Write ''}\<newline>'']
   \<and> hd (verifyPacketSize (examplePacket ''Ping'' []))
       \<notin> set (createPacketFunctions_source exampleMethods
              (examplePacket ''Ping'' []))"
proof -
  let ?P = "examplePacket ''Ping'' []"
  have c: "chooseInterfaces [] ?P = (False, True)"
    by (simp add: chooseInterfaces_def Let_def examplePacket_def)
  have src: "createPacketFunctions_source exampleMethods ?P =
       [LineSeparator,
        Write ''/*!\<newline>'',
        Write ('' * '' @ bs @ ''brief Create the Ping packet\<newline>''),
        Write '' *\<newline>'',
        Write '' * \<newline>'',
        Write ('' * '' @ bs @ ''param pkt points to the packet which will be created by this function\<newline>''),
        Write '' */\<newline>'',
        Write ''void encodePingPacket(void* pkt)\<newline>'',
        Write ''{\<newline>'',
        Write ''    // create a zero length packet\<newline>'',
        Write ''    finishDemoPacket(pkt, 0, getPingPacketID());\<newline>'',
        Write ''}\<newline>'',
        Write ''\<newline>'',
        Write ''/*!\<newline>'',
        Write ('' * '' @ bs @ ''brief Decode the Ping packet\<newline>''),
        Write '' *\<newline>'',
        Write '' * \<newline>'',
        Write ('' * '' @ bs @ ''param pkt points to the packet being decoded by this function\<newline>''),
        Write ('' * '' @ bs @ ''return 0 is returned if the packet ID is wrong, else 1\<newline>''),
        Write '' */\<newline>'',
        Write ''int decodePingPacket(const void* pkt)\<newline>'',
        Write ''{\<newline>'',
        Write ''    if(getDemoPacketID(pkt) != getPingPacketID())\<newline>'',
        Write ''        return 0;\<newline>'',
        Write ''    else\<newline>'',
        Write ''        return 1;\<newline>'',
        Write ''}\<newline>'']"
    by (simp add: createPacketFunctions_source_def parameterEmptyFunctions_def getNumberOfEncodes_def
          getPacketEncodeSignature_def getPacketDecodeSignature_def getNumberOfNonConstEncodes_def
          getPacketEncodeBriefComment_def getPacketDecodeBriefComment_def
          examplePacket_def exampleMethods_def)
  have vs: "verifyPacketSize ?P =
       [Write ''    if(numBytes < getPingMinDataLength())\<newline>'', Write ''        return 0;\<newline>'']"
    by (simp add: verifyPacketSize_def examplePacket_def)
  have "hd (verifyPacketSize ?P) \<notin> set (createPacketFunctions_source exampleMethods ?P)"
    unfolding src vs by (simp add: bs_def)
  moreover have "drop 12 (createPacketFunctions_source exampleMethods ?P)
     = [Write ''\<newline>'',
        Write ''/*!\<newline>'',
        Write ('' * '' @ bs @ ''brief Decode the Ping packet\<newline>''),
        Write '' *\<newline>'',
        Write '' * \<newline>'',
        Write ('' * '' @ bs @ ''param pkt points to the packet being decoded by this function\<newline>''),
        Write ('' * '' @ bs @ ''return 0 is returned if the packet ID is wrong, else 1\<newline>''),
        Write '' */\<newline>'',
        Write ''int decodePingPacket(const void* pkt)\<newline>'',
        Write ''{\<newline>'',
        Write ''    if(getDemoPacketID(pkt) != getPingPacketID())\<newline>'',
        Write ''        return 0;\<newline>'',
        Write ''    else\<newline>'',
        Write ''        return 1;\<newline>'',
        Write ''}\<newline>'']"
    unfolding src by simp
  ultimately show ?thesis using c by blast
qed

text \<open>
  Claim C8. When neither attribute contains \<open>true\<close>, exactly one interface is chosen: the
  parameter interface for at most one child, the structure interface for two or more,
  and the functions of the chosen interface are what \<open>parse\<close> writes to the source. For a
  packet without children the functions written are those of the parameter interface,
  the body of the encode function is the call of \<open>finishPacket(pkt, 0, id)\<close> and the body
  of the decode function is the verification of the packet identifier.
\<close>

theorem default_interface_choice:
  assumes "\<not> containsCI (attribute e ''structureInterface'') ''true''"
    and "\<not> containsCI (attribute e ''parameterInterface'') ''true''"
  shows "chooseInterfaces e p = (if length (encodables p) \<le> 1 then (False, True) else (True, False))
       \<and> (\<exists>before after. disk (source (fst (parsePacket M hx sx e p))) =
             before
             @ (if length (encodables p) \<le> 1 then createPacketFunctions_source M p
                else createStructurePacketFunctions_source M p)
             @ after)
       \<and> (\<exists>before after. disk (header (fst (parsePacket M hx sx e p))) =
             before
             @ (if length (encodables p) \<le> 1 then createPacketFunctions_header M p
                else createStructurePacketFunctions_header M p)
             @ after)
       \<and> (encodables p = [] \<longrightarrow>
            (\<exists>c1 c2. createPacketFunctions_source M p =
               c1 @ [Write (getPacketEncodeSignature M p @ ''\<newline>''), Write ''{\<newline>'',
                     Write ''    // create a zero length packet\<newline>'',
                     Write (''    finish'' @ protoName p @ ''Packet(pkt, 0, get'' @ prefix p @ name p
                            @ ''PacketID());\<newline>''),
                     Write ''}\<newline>'']
               @ c2 @ [Write (getPacketDecodeSignature M p @ ''\<newline>''), Write ''{\<newline>'',
                     Write (''    if(get'' @ protoName p @ ''PacketID(pkt) != get'' @ prefix p @ name p
                            @ ''PacketID())\<newline>''),
                     Write ''        return 0;\<newline>'',
                     Write ''    else\<newline>'',
                     Write ''        return 1;\<newline>'',
                     Write ''}\<newline>'']))"
proof -
  have c: "chooseInterfaces e p = (if length (encodables p) \<le> 1 then (False, True) else (True, False))"
    using assms by (rule chooseInterfaces_default)
  have s: "interfaceSource M (chooseInterfaces e p) p =
             (if length (encodables p) \<le> 1 then createPacketFunctions_source M p
              else createStructurePacketFunctions_source M p)"
    unfolding c interfaceSource_def by auto
  have h: "interfaceHeader M (chooseInterfaces e p) p =
             (if length (encodables p) \<le> 1 then createPacketFunctions_header M p
              else createStructurePacketFunctions_header M p)"
    unfolding c interfaceHeader_def by auto
  have z: "encodables p = [] \<longrightarrow>
            (\<exists>c1 c2. createPacketFunctions_source M p =
               c1 @ [Write (getPacketEncodeSignature M p @ ''\<newline>''), Write ''{\<newline>'',
                     Write ''    // create a zero length packet\<newline>'',
                     Write (''    finish'' @ protoName p @ ''Packet(pkt, 0, get'' @ prefix p @ name p
                            @ ''PacketID());\<newline>''),
                     Write ''}\<newline>'']
               @ c2 @ [Write (getPacketDecodeSignature M p @ ''\<newline>''), Write ''{\<newline>'',
                     Write (''    if(get'' @ protoName p @ ''PacketID(pkt) != get'' @ prefix p @ name p
                            @ ''PacketID())\<newline>''),
                     Write ''        return 0;\<newline>'',
                     Write ''    else\<newline>'',
                     Write ''        return 1;\<newline>'',
                     Write ''}\<newline>''])"
  proof
    assume "encodables p = []"
    then have "getNumberOfEncodes p = 0" by (rule getNumberOfEncodes_Nil)
    from source_without_encodes(2) [OF this, of M] show
      "\<exists>c1 c2. createPacketFunctions_source M p =
               c1 @ [Write (getPacketEncodeSignature M p @ ''\<newline>''), Write ''{\<newline>'',
                     Write ''    // create a zero length packet\<newline>'',
                     Write (''    finish'' @ protoName p @ ''Packet(pkt, 0, get'' @ prefix p @ name p
                            @ ''PacketID());\<newline>''),
                     Write ''}\<newline>'']
               @ c2 @ [Write (getPacketDecodeSignature M p @ ''\<newline>''), Write ''{\<newline>'',
                     Write (''    if(get'' @ protoName p @ ''PacketID(pkt) != get'' @ prefix p @ name p
                            @ ''PacketID())\<newline>''),
                     Write ''        return 0;\<newline>'',
                     Write ''    else\<newline>'',
                     Write ''        return 1;\<newline>'',
                     Write ''}\<newline>'']"
      unfolding emptyEncodeBody_def emptyDecodeBody_def verifyPacketIdentifier_def by simp
  qed
  from parsePacket_source [of M hx sx e p] parsePacket_header [of M hx sx e p] c z
  show ?thesis unfolding s h by blast
qed

theorem default_interface_choice_witness:
  "\<not> containsCI (attribute [(''name'', ''Ping'')] ''structureInterface'') ''true''
   \<and> \<not> containsCI (attribute [(''name'', ''Ping'')] ''parameterInterface'') ''true''
   \<and> chooseInterfaces [(''name'', ''Ping'')] (examplePacket ''Ping'' []) = (False, True)
   \<and> chooseInterfaces [(''name'', ''Ping'')] (examplePacket ''Ping'' [exampleField ''n'']) = (False, True)
   \<and> chooseInterfaces [(''name'', ''Ping'')]
        (examplePacket ''Ping'' [exampleField ''a'', exampleField ''b'']) = (True, False)
   \<and> (\<exists>c1 c2. createPacketFunctions_source exampleMethods (examplePacket ''Ping'' []) =
         c1 @ [Write ''void encodePingPacket(void* pkt)\<newline>'', Write ''{\<newline>'',
               Write ''    // create a zero length packet\<newline>'',
               Write ''    finishDemoPacket(pkt, 0, getPingPacketID());\<newline>'',
               Write ''}\<newline>'']
         @ c2 @ [Write ''int decodePingPacket(const void* pkt)\<newline>'', Write ''{\<newline>'',
               Write ''    if(getDemoPacketID(pkt) != getPingPacketID())\<newline>'',
               Write ''        return 0;\<newline>'',
               Write ''    else\<newline>'',
               Write ''        return 1;\<newline>'',
               Write ''}\<newline>''])"
proof -
  let ?e = "[(''name'', ''Ping'')]"
  have a: "\<not> containsCI (attribute ?e ''structureInterface'') ''true''"
    and b: "\<not> containsCI (attribute ?e ''parameterInterface'') ''true''"
    by (simp_all add: attribute_def containsCI_def containsStr.simps startsWith_def)
  note t = default_interface_choice [OF a b, of _ exampleMethods False False]
  have c0: "chooseInterfaces ?e (examplePacket ''Ping'' []) = (False, True)"
    using t [of "examplePacket ''Ping'' []"] by (simp add: examplePacket_def)
  have c1: "chooseInterfaces ?e (examplePacket ''Ping'' [exampleField ''n'']) = (False, True)"
    using t [of "examplePacket ''Ping'' [exampleField ''n'']"] by (simp add: examplePacket_def)
  have c2: "chooseInterfaces ?e (examplePacket ''Ping'' [exampleField ''a'', exampleField ''b''])
              = (True, False)"
    using t [of "examplePacket ''Ping'' [exampleField ''a'', exampleField ''b'']"]
    by (simp add: examplePacket_def)
  have e: "encodables (examplePacket ''Ping'' []) = []"
    by (simp add: examplePacket_def)
  have "\<exists>c1 c2. createPacketFunctions_source exampleMethods (examplePacket ''Ping'' []) =
         c1 @ [Write (getPacketEncodeSignature exampleMethods (examplePacket ''Ping'' []) @ ''\<newline>''),
               Write ''{\<newline>'',
               Write ''    // create a zero length packet\<newline>'',
               Write (''    finish'' @ protoName (examplePacket ''Ping'' []) @ ''Packet(pkt, 0, get''
                      @ prefix (examplePacket ''Ping'' []) @ name (examplePacket ''Ping'' [])
                      @ ''PacketID());\<newline>''),
               Write ''}\<newline>'']
         @ c2 @ [Write (getPacketDecodeSignature exampleMethods (examplePacket ''Ping'' []) @ ''\<newline>''),
               Write ''{\<newline>'',
               Write (''    if(get'' @ protoName (examplePacket ''Ping'' []) @ ''PacketID(pkt) != get''
                      @ prefix (examplePacket ''Ping'' []) @ name (examplePacket ''Ping'' [])
                      @ ''PacketID())\<newline>''),
               Write ''        return 0;\<newline>'',
               Write ''    else\<newline>'',
               Write ''        return 1;\<newline>'',
               Write ''}\<newline>'']"
    using t [of "examplePacket ''Ping'' []"] e by blast
  then have z: "\<exists>c1 c2. createPacketFunctions_source exampleMethods (examplePacket ''Ping'' []) =
         c1 @ [Write ''void encodePingPacket(void* pkt)\<newline>'', Write ''{\<newline>'',
               Write ''    // create a zero length packet\<newline>'',
               Write ''    finishDemoPacket(pkt, 0, getPingPacketID());\<newline>'',
               Write ''}\<newline>'']
         @ c2 @ [Write ''int decodePingPacket(const void* pkt)\<newline>'', Write ''{\<newline>'',
               Write ''    if(getDemoPacketID(pkt) != getPingPacketID())\<newline>'',
               Write ''        return 0;\<newline>'',
               Write ''    else\<newline>'',
               Write ''        return 1;\<newline>'',
               Write ''}\<newline>'']"
    by (simp add: getPacketEncodeSignature_def getPacketDecodeSignature_def examplePacket_def
          getNumberOfNonConstEncodes_def)
  from a b c0 c1 c2 z show ?thesis by blast
qed

text \<open>
  Claim C10. When both attributes contain \<open>true\<close> and the packet has at least one child,
  both interfaces are chosen, and \<open>parse\<close> writes the functions of the structure interface
  followed by the functions of the parameter interface to the same source file, and
  their prototypes to the same header file. Each of the two blocks holds an encode and
  a decode function.
\<close>

theorem both_interfaces_emitted:
  assumes "containsCI (attribute e ''structureInterface'') ''true''"
    and "containsCI (attribute e ''parameterInterface'') ''true''"
    and "encodables p \<noteq> []"
  shows "chooseInterfaces e p = (True, True)
       \<and> (\<exists>before after. disk (source (fst (parsePacket M hx sx e p))) =
             before @ createStructurePacketFunctions_source M p @ createPacketFunctions_source M p @ after)
       \<and> (\<exists>before after. disk (header (fst (parsePacket M hx sx e p))) =
             before @ createStructurePacketFunctions_header M p @ createPacketFunctions_header M p @ after)
       \<and> (\<exists>rest. Write (''void encode'' @ prefix p @ name p @ ''PacketStructure(void* pkt'' @ rest)
                    \<in> set (createStructurePacketFunctions_source M p))
       \<and> (\<exists>rest. Write (''int decode'' @ prefix p @ name p @ ''PacketStructure(const void* pkt'' @ rest)
                    \<in> set (createStructurePacketFunctions_source M p))
       \<and> Write (getPacketEncodeSignature M p @ ''\<newline>'') \<in> set (createPacketFunctions_source M p)
       \<and> Write (getPacketDecodeSignature M p @ ''\<newline>'') \<in> set (createPacketFunctions_source M p)"
proof -
  have c: "chooseInterfaces e p = (True, True)"
    using assms by (rule chooseInterfaces_both)
  have s: "interfaceSource M (chooseInterfaces e p) p =
             createStructurePacketFunctions_source M p @ createPacketFunctions_source M p"
    unfolding c interfaceSource_def using assms(3) by simp
  have h: "interfaceHeader M (chooseInterfaces e p) p =
             createStructurePacketFunctions_header M p @ createPacketFunctions_header M p"
    unfolding c interfaceHeader_def using assms(3) by simp
  have s': "\<exists>before after. disk (source (fst (parsePacket M hx sx e p))) =
             before @ createStructurePacketFunctions_source M p @ createPacketFunctions_source M p @ after"
    using parsePacket_source [of M hx sx e p] unfolding s by simp
  have h': "\<exists>before after. disk (header (fst (parsePacket M hx sx e p))) =
             before @ createStructurePacketFunctions_header M p @ createPacketFunctions_header M p @ after"
    using parsePacket_header [of M hx sx e p] unfolding h by simp
  from c s' h' structure_pair_present [of p M] parameter_pair_present [of M p]
  show ?thesis by blast
qed

theorem both_interfaces_emitted_witness:
  "containsCI (attribute [(''name'', ''Echo''), (''structureInterface'', ''true''),
                          (''parameterInterface'', ''True'')] ''structureInterface'') ''true''
   \<and> containsCI (attribute [(''name'', ''Echo''), (''structureInterface'', ''true''),
                          (''parameterInterface'', ''True'')] ''parameterInterface'') ''true''
   \<and> encodables (examplePacket ''Echo'' [exampleField ''n'']) \<noteq> []
   \<and> chooseInterfaces [(''name'', ''Echo''), (''structureInterface'', ''true''),
                       (''parameterInterface'', ''True'')]
        (examplePacket ''Echo'' [exampleField ''n'']) = (True, True)
   \<and> Write ''void encodeEchoPacketStructure(void* pkt, const Echo_t* user)\<newline>''
       \<in> set (createStructurePacketFunctions_source exampleMethods (examplePacket ''Echo'' [exampleField ''n'']))
   \<and> Write ''int decodeEchoPacketStructure(const void* pkt, Echo_t* user)\<newline>''
       \<in> set (createStructurePacketFunctions_source exampleMethods (examplePacket ''Echo'' [exampleField ''n'']))
   \<and> Write ''void encodeEchoPacket(void* pkt, uint32_t n)\<newline>''
       \<in> set (createPacketFunctions_source exampleMethods (examplePacket ''Echo'' [exampleField ''n'']))
   \<and> Write ''int decodeEchoPacket(const void* pkt, uint32_t* n)\<newline>''
       \<in> set (createPacketFunctions_source exampleMethods (examplePacket ''Echo'' [exampleField ''n'']))
   \<and> (\<exists>before after.
         disk (source (fst (parsePacket exampleMethods False False
            [(''name'', ''Echo''), (''structureInterface'', ''true''), (''parameterInterface'', ''True'')]
            (examplePacket ''Echo'' [exampleField ''n'']))))
         = before
           @ createStructurePacketFunctions_source exampleMethods (examplePacket ''Echo'' [exampleField ''n''])
           @ createPacketFunctions_source exampleMethods (examplePacket ''Echo'' [exampleField ''n''])
           @ after)"
proof -
  let ?e = "[(''name'', ''Echo''), (''structureInterface'', ''true''), (''parameterInterface'', ''True'')]"
  let ?P = "examplePacket ''Echo'' [exampleField ''n'']"
  have a: "containsCI (attribute ?e ''structureInterface'') ''true''"
    and b: "containsCI (attribute ?e ''parameterInterface'') ''true''"
    by (simp_all add: attribute_def containsCI_def containsStr.simps startsWith_def toLowerChar_def)
  have n: "encodables ?P \<noteq> []"
    by (simp add: examplePacket_def)
  note t = both_interfaces_emitted [OF a b n, of exampleMethods False False]
  have c: "chooseInterfaces ?e ?P = (True, True)"
    using t by blast
  have s: "\<exists>before after.
         disk (source (fst (parsePacket exampleMethods False False ?e ?P)))
         = before @ createStructurePacketFunctions_source exampleMethods ?P
           @ createPacketFunctions_source exampleMethods ?P @ after"
    using t by blast
  have ne: "getNumberOfEncodes ?P > 0" and nc: "getNumberOfNonConstEncodes ?P > 0"
    by (simp_all add: getNumberOfEncodes_def getNumberOfNonConstEncodes_def examplePacket_def
          exampleField_def isNotEncoded_def isNotInMemory_def isConstant_def)
  have se: "Write ''void encodeEchoPacketStructure(void* pkt, const Echo_t* user)\<newline>''
       \<in> set (structureEncodeFunction exampleMethods ?P)"
    using nc by (simp add: structureEncodeFunction_def examplePacket_def)
  have sd: "Write ''int decodeEchoPacketStructure(const void* pkt, Echo_t* user)\<newline>''
       \<in> set (structureDecodeFunction exampleMethods ?P)"
    by (simp add: structureDecodeFunction_def examplePacket_def)
  have pe: "Write ''void encodeEchoPacket(void* pkt, uint32_t n)\<newline>''
       \<in> set (parameterEncodeFunction exampleMethods ?P)"
    using nc by (simp add: parameterEncodeFunction_def getPacketEncodeSignature_def
        getDataEncodeParameterList_def examplePacket_def exampleMethods_def exampleField_def)
  have pd: "Write ''int decodeEchoPacket(const void* pkt, uint32_t* n)\<newline>''
       \<in> set (parameterDecodeFunction exampleMethods ?P)"
    by (simp add: parameterDecodeFunction_def getPacketDecodeSignature_def
        getDataDecodeParameterList_def examplePacket_def exampleMethods_def exampleField_def)
  have ss: "createStructurePacketFunctions_source exampleMethods ?P
              = structureEncodeFunction exampleMethods ?P @ structureDecodeFunction exampleMethods ?P"
    and ps: "createPacketFunctions_source exampleMethods ?P
              = parameterEncodeFunction exampleMethods ?P @ parameterDecodeFunction exampleMethods ?P"
    using ne by (simp_all add: createStructurePacketFunctions_source_def createPacketFunctions_source_def)
  have m: "Write ''void encodeEchoPacketStructure(void* pkt, const Echo_t* user)\<newline>''
       \<in> set (createStructurePacketFunctions_source exampleMethods ?P)"
     "Write ''int decodeEchoPacketStructure(const void* pkt, Echo_t* user)\<newline>''
       \<in> set (createStructurePacketFunctions_source exampleMethods ?P)"
     "Write ''void encodeEchoPacket(void* pkt, uint32_t n)\<newline>''
       \<in> set (createPacketFunctions_source exampleMethods ?P)"
     "Write ''int decodeEchoPacket(const void* pkt, uint32_t* n)\<newline>''
       \<in> set (createPacketFunctions_source exampleMethods ?P)"
    unfolding ss ps using se sd pe pd by simp_all
  from a b n c m s show ?thesis by blast
qed

end
